theory Spec2Isabelle
  imports Complex_Main
begin

text \<open>
  A model of \<open>python/strategy/kalman_filter.py\<close>: the estimator \<open>PairsKalmanFilter\<close>
  (batch initialization, online update, accessors, confidence) and the strategy
  \<open>PairsTradingStrategy\<close> (half-life, signal decision, position tracking). Methods take
  the object's state and return the new one; an exception is a value. The definitions come
  first, the lemmas and the theorems about them after.
\<close>

section \<open>Floating-point values\<close>

text \<open>
  The estimator computes with IEEE doubles (Python \<open>float\<close>, \<open>numpy.float64\<close>). They are
  modelled as exact reals extended with the three special values: a finite result is the
  exact real result (no rounding, no overflow), zero carries no sign, and the special values
  follow the IEEE rules (\<open>NaN\<close> is absorbing, \<open>inf - inf = NaN\<close>, \<open>0 * inf = NaN\<close>,
  every comparison with \<open>NaN\<close> is false).
\<close>

datatype fl = Fin real | PInf | NInf | NaN

fun is_finite :: "fl \<Rightarrow> bool" where
  "is_finite (Fin a) = True"
| "is_finite _ = False"

fun is_nan :: "fl \<Rightarrow> bool" where
  "is_nan NaN = True"
| "is_nan _ = False"

fun fneg :: "fl \<Rightarrow> fl" where
  "fneg (Fin a) = Fin (- a)"
| "fneg PInf = NInf"
| "fneg NInf = PInf"
| "fneg NaN = NaN"

fun fadd :: "fl \<Rightarrow> fl \<Rightarrow> fl" where
  "fadd (Fin a) (Fin b) = Fin (a + b)"
| "fadd NaN _ = NaN"
| "fadd _ NaN = NaN"
| "fadd PInf NInf = NaN"
| "fadd NInf PInf = NaN"
| "fadd PInf _ = PInf"
| "fadd _ PInf = PInf"
| "fadd NInf _ = NInf"
| "fadd _ NInf = NInf"

definition fsub :: "fl \<Rightarrow> fl \<Rightarrow> fl" where
  "fsub a b = fadd a (fneg b)"

text \<open>The sign of an infinite product or quotient: \<open>True\<close> for \<open>+inf\<close>.\<close>

definition signed_inf :: "bool \<Rightarrow> fl" where
  "signed_inf pos = (if pos then PInf else NInf)"

fun fmul :: "fl \<Rightarrow> fl \<Rightarrow> fl" where
  "fmul (Fin a) (Fin b) = Fin (a * b)"
| "fmul NaN _ = NaN"
| "fmul _ NaN = NaN"
| "fmul (Fin a) PInf = (if a = 0 then NaN else signed_inf (0 < a))"
| "fmul (Fin a) NInf = (if a = 0 then NaN else signed_inf (a < 0))"
| "fmul PInf (Fin b) = (if b = 0 then NaN else signed_inf (0 < b))"
| "fmul NInf (Fin b) = (if b = 0 then NaN else signed_inf (b < 0))"
| "fmul PInf PInf = PInf"
| "fmul NInf NInf = PInf"
| "fmul PInf NInf = NInf"
| "fmul NInf PInf = NInf"

text \<open>
  numpy's division: dividing by zero gives an infinity (or \<open>NaN\<close> for \<open>0 / 0\<close>) and a
  warning, never an exception.
\<close>

fun fdiv :: "fl \<Rightarrow> fl \<Rightarrow> fl" where
  "fdiv (Fin a) (Fin b) =
     (if b \<noteq> 0 then Fin (a / b) else if a = 0 then NaN else signed_inf (0 < a))"
| "fdiv NaN _ = NaN"
| "fdiv _ NaN = NaN"
| "fdiv (Fin a) _ = Fin 0"
| "fdiv PInf (Fin b) = signed_inf (0 \<le> b)"
| "fdiv NInf (Fin b) = signed_inf (b < 0)"
| "fdiv _ _ = NaN"

fun fsqrt :: "fl \<Rightarrow> fl" where
  "fsqrt (Fin a) = (if 0 \<le> a then Fin (sqrt a) else NaN)"
| "fsqrt PInf = PInf"
| "fsqrt _ = NaN"

text \<open>\<open>numpy.log\<close>: \<open>log 0 = -inf\<close>, the log of a negative number is \<open>NaN\<close>.\<close>

fun flog :: "fl \<Rightarrow> fl" where
  "flog (Fin a) = (if 0 < a then Fin (ln a) else if a = 0 then NInf else NaN)"
| "flog PInf = PInf"
| "flog _ = NaN"

fun flt :: "fl \<Rightarrow> fl \<Rightarrow> bool" where
  "flt (Fin a) (Fin b) = (a < b)"
| "flt NaN _ = False"
| "flt _ NaN = False"
| "flt _ NInf = False"
| "flt PInf _ = False"
| "flt _ _ = True"

fun fle :: "fl \<Rightarrow> fl \<Rightarrow> bool" where
  "fle (Fin a) (Fin b) = (a \<le> b)"
| "fle NaN _ = False"
| "fle _ NaN = False"
| "fle NInf _ = True"
| "fle _ PInf = True"
| "fle _ _ = False"

text \<open>
  Python's built-in \<open>max(a, b)\<close> returns \<open>b\<close> only when \<open>b > a\<close>, and \<open>min(a, b)\<close>
  returns \<open>b\<close> only when \<open>b < a\<close>; with a \<open>NaN\<close> second argument both return the first.
\<close>

definition py_max :: "fl \<Rightarrow> fl \<Rightarrow> fl" where
  "py_max a b = (if flt a b then b else a)"

definition py_min :: "fl \<Rightarrow> fl \<Rightarrow> fl" where
  "py_min a b = (if flt b a then b else a)"


section \<open>Exceptions\<close>

text \<open>
  The Python exception classes the code can raise. A computation that may raise returns
  \<open>error + 'a\<close>, with \<open>Inl\<close> for the exception; \<open>ebind\<close> sequences two such
  computations and stops at the first exception.
\<close>

datatype error =
  ValueError | RuntimeError | IndexError | KeyError | TypeError | AttributeError
  | LinAlgError | ZeroDivisionError

definition ebind :: "error + 'a \<Rightarrow> ('a \<Rightarrow> error + 'b) \<Rightarrow> error + 'b" where
  "ebind m f = (case m of Inl e \<Rightarrow> Inl e | Inr x \<Rightarrow> f x)"

text \<open>Python's float division raises on a zero divisor.\<close>

definition py_div :: "fl \<Rightarrow> fl \<Rightarrow> error + fl" where
  "py_div a b = (if b = Fin 0 then Inl ZeroDivisionError else Inr (fdiv a b))"

section \<open>Vectors and matrices of the two-dimensional state\<close>

text \<open>
  The state is \<open>[intercept, beta]\<close>: a state mean is a pair and a state covariance a
  2x2 matrix, written row by row. The stored trajectories \<open>state_means\<close> (shape N x 2) and
  \<open>state_covariances\<close> (shape N x 2 x 2) keep these shapes for the whole life of the
  estimator, so they are lists of such pairs and matrices.
\<close>

type_synonym vec2 = "fl \<times> fl"
type_synonym mat2 = "fl \<times> fl \<times> fl \<times> fl"

definition dot2 :: "vec2 \<Rightarrow> vec2 \<Rightarrow> fl" where
  "dot2 u v = fadd (fmul (fst u) (fst v)) (fmul (snd u) (snd v))"

fun mat2_vec :: "mat2 \<Rightarrow> vec2 \<Rightarrow> vec2" where
  "mat2_vec (a, b, c, d) v = (dot2 (a, b) v, dot2 (c, d) v)"

fun vec_mat2 :: "vec2 \<Rightarrow> mat2 \<Rightarrow> vec2" where
  "vec_mat2 v (a, b, c, d) = (dot2 v (a, c), dot2 v (b, d))"

fun mat2_T :: "mat2 \<Rightarrow> mat2" where
  "mat2_T (a, b, c, d) = (a, c, b, d)"

fun mat2_mul :: "mat2 \<Rightarrow> mat2 \<Rightarrow> mat2" where
  "mat2_mul (a, b, c, d) (e, f, g, h) =
     (dot2 (a, b) (e, g), dot2 (a, b) (f, h), dot2 (c, d) (e, g), dot2 (c, d) (f, h))"

fun mat2_add :: "mat2 \<Rightarrow> mat2 \<Rightarrow> mat2" where
  "mat2_add (a, b, c, d) (e, f, g, h) = (fadd a e, fadd b f, fadd c g, fadd d h)"

fun mat2_sub :: "mat2 \<Rightarrow> mat2 \<Rightarrow> mat2" where
  "mat2_sub (a, b, c, d) (e, f, g, h) = (fsub a e, fsub b f, fsub c g, fsub d h)"

definition vec2_add :: "vec2 \<Rightarrow> vec2 \<Rightarrow> vec2" where
  "vec2_add u v = (fadd (fst u) (fst v), fadd (snd u) (snd v))"

definition vec2_scale :: "vec2 \<Rightarrow> fl \<Rightarrow> vec2" where
  "vec2_scale u x = (fmul (fst u) x, fmul (snd u) x)"

text \<open>The outer product of a column (the gain) and a row.\<close>

definition outer2 :: "vec2 \<Rightarrow> vec2 \<Rightarrow> mat2" where
  "outer2 u v = (fmul (fst u) (fst v), fmul (fst u) (snd v),
                 fmul (snd u) (fst v), fmul (snd u) (snd v))"

text \<open>\<open>np.eye(2) * x\<close>: the off-diagonal entries are \<open>0 * x\<close>, which is \<open>NaN\<close> for an
  infinite \<open>x\<close>.\<close>

definition eye2_times :: "fl \<Rightarrow> mat2" where
  "eye2_times x = (fmul (Fin 1) x, fmul (Fin 0) x, fmul (Fin 0) x, fmul (Fin 1) x)"

definition eye2 :: mat2 where
  "eye2 = (Fin 1, Fin 0, Fin 0, Fin 1)"

fun np_trace :: "mat2 \<Rightarrow> fl" where
  "np_trace (a, b, c, d) = fadd a d"

fun mat2_finite :: "mat2 \<Rightarrow> bool" where
  "mat2_finite (a, b, c, d) = (is_finite a \<and> is_finite b \<and> is_finite c \<and> is_finite d)"

section \<open>The batch filter of the pykalman library\<close>

text \<open>
  \<open>pykalman.KalmanFilter\<close> is an external library; what \<open>initialize\<close> configures
  (lines 84 to 93) is a filter with a two-dimensional state, a one-dimensional observation,
  one observation row \<open>[1, log price_b[t]]\<close> per time step, the identity as transition
  matrix and zero offsets. Its \<open>filter\<close> method is the library's documented forward
  recursion, written here for these dimensions: at \<open>t = 0\<close> the prediction is the initial
  mean and covariance; later it is \<open>A m\<close> and \<open>A P A\<^sup>T + Q\<close>; every step corrects the
  prediction with the gain \<open>P H\<^sup>T pinv(H P H\<^sup>T + R)\<close>. The library takes the
  pseudo-inverse with \<open>scipy.linalg.pinv\<close>, which refuses a non-finite argument with a
  \<open>ValueError\<close> and inverts a 1x1 matrix unless it is zero.
\<close>

record pykalman =
  initial_state_mean :: vec2
  initial_state_cov :: mat2
  transition_matrices :: mat2
  observation_matrices :: "vec2 list"
  observation_cov :: fl
  transition_cov :: mat2

definition linalg_pinv :: "fl \<Rightarrow> error + fl" where
  "linalg_pinv x =
     (if \<not> is_finite x then Inl ValueError
      else if x = Fin 0 then Inr (Fin 0) else Inr (fdiv (Fin 1) x))"

definition filter_predict :: "mat2 \<Rightarrow> mat2 \<Rightarrow> vec2 \<Rightarrow> mat2 \<Rightarrow> vec2 \<times> mat2" where
  "filter_predict A Q m P =
     (mat2_vec A m, mat2_add (mat2_mul A (mat2_mul P (mat2_T A))) Q)"

definition filter_correct :: "vec2 \<Rightarrow> fl \<Rightarrow> vec2 \<Rightarrow> mat2 \<Rightarrow> fl \<Rightarrow> error + (vec2 \<times> mat2)" where
  "filter_correct H R m P y =
     (let predicted_observation_mean = dot2 H m;
          predicted_observation_covariance = fadd (dot2 H (mat2_vec P H)) R
      in ebind (linalg_pinv predicted_observation_covariance) (\<lambda>si.
           let kalman_gain = mat2_vec P (vec2_scale H si);
               corrected_state_mean =
                 vec2_add m (vec2_scale kalman_gain (fsub y predicted_observation_mean));
               corrected_state_covariance =
                 mat2_sub P (outer2 kalman_gain (vec_mat2 H P))
           in Inr (corrected_state_mean, corrected_state_covariance)))"

fun filter_loop ::
  "pykalman \<Rightarrow> vec2 \<Rightarrow> mat2 \<Rightarrow> (vec2 \<times> fl) list \<Rightarrow> error + (vec2 \<times> mat2) list" where
  "filter_loop k m P [] = Inr []"
| "filter_loop k m P ((H, y) # rest) =
     (case filter_predict (transition_matrices k) (transition_cov k) m P of
        (pm, pP) \<Rightarrow>
          ebind (filter_correct H (observation_cov k) pm pP y) (\<lambda>(m', P').
          ebind (filter_loop k m' P' rest) (\<lambda>r. Inr ((m', P') # r))))"

definition kf_filter :: "pykalman \<Rightarrow> fl list \<Rightarrow> error + (vec2 list \<times> mat2 list)" where
  "kf_filter k observations =
     (case zip (observation_matrices k) observations of
        [] \<Rightarrow> Inr ([], [])
      | (H, y) # rest \<Rightarrow>
          ebind (filter_correct H (observation_cov k)
                   (initial_state_mean k) (initial_state_cov k) y) (\<lambda>(m, P).
          ebind (filter_loop k m P rest) (\<lambda>r.
          Inr (m # map fst r, P # map snd r))))"


section \<open>numpy arrays in the online update\<close>

text \<open>
  In \<open>update\<close> the shape of an intermediate array is decided at run time by numpy's
  rules, and an index that does not fit the shape raises. The arrays of the update are
  therefore values that carry their number of dimensions: a 0-d scalar, a 1-d array, or a
  2-d array given by its rows.
\<close>

datatype ndarray = Scal fl | Vec "fl list" | Mat "fl list list"

definition dot :: "fl list \<Rightarrow> fl list \<Rightarrow> fl" where
  "dot xs ys = foldl fadd (Fin 0) (map2 fmul xs ys)"

text \<open>
  The operator \<open>@\<close> (\<open>numpy.matmul\<close>). A 1-d operand is promoted to a matrix for the
  product and the added dimension is removed from the result: a 2-d array times a 1-d array
  is a 1-d array. Inner dimensions that differ raise \<open>ValueError\<close>, and so does a 0-d
  operand.
\<close>

fun np_matmul :: "ndarray \<Rightarrow> ndarray \<Rightarrow> error + ndarray" where
  "np_matmul (Mat A) (Mat B) =
     (if list_all (\<lambda>r. length r = length B) A
      then Inr (Mat (map (\<lambda>r. map (dot r) (transpose B)) A)) else Inl ValueError)"
| "np_matmul (Mat A) (Vec v) =
     (if list_all (\<lambda>r. length r = length v) A
      then Inr (Vec (map (\<lambda>r. dot r v) A)) else Inl ValueError)"
| "np_matmul (Vec v) (Mat B) =
     (if length v = length B
      then Inr (Vec (map (dot v) (transpose B))) else Inl ValueError)"
| "np_matmul (Vec v) (Vec w) =
     (if length v = length w then Inr (Scal (dot v w)) else Inl ValueError)"
| "np_matmul _ _ = Inl ValueError"

text \<open>\<open>a[i, j]\<close>: two indices need a 2-d array; on a 1-d or 0-d array numpy raises
  \<open>IndexError\<close> (too many indices for array).\<close>

fun np_index2 :: "ndarray \<Rightarrow> nat \<Rightarrow> nat \<Rightarrow> error + fl" where
  "np_index2 (Mat A) i j =
     (if i < length A \<and> j < length (A ! i) then Inr (A ! i ! j) else Inl IndexError)"
| "np_index2 _ i j = Inl IndexError"

text \<open>\<open>a[i]\<close> read as a float, as the hedge ratio is: an entry of a 1-d array. A row of
  a 2-d array is not a float, and the format \<open>:.4f\<close> of the debug line raises
  \<open>TypeError\<close> on it.\<close>

fun np_item :: "ndarray \<Rightarrow> nat \<Rightarrow> error + fl" where
  "np_item (Vec v) i = (if i < length v then Inr (v ! i) else Inl IndexError)"
| "np_item (Mat A) i = (if i < length A then Inl TypeError else Inl IndexError)"
| "np_item (Scal x) i = Inl IndexError"

fun np_T :: "ndarray \<Rightarrow> ndarray" where
  "np_T (Mat A) = Mat (transpose A)"
| "np_T a = a"

fun np_flatten :: "ndarray \<Rightarrow> fl list" where
  "np_flatten (Mat A) = concat A"
| "np_flatten (Vec v) = v"
| "np_flatten (Scal x) = [x]"

text \<open>
  Elementwise operators with numpy's broadcasting, for arrays of at most two dimensions:
  the shapes are aligned at the right, a dimension of size 1 is stretched, and two
  dimensions that differ and are both not 1 raise \<open>ValueError\<close>.
\<close>

fun as_rows :: "ndarray \<Rightarrow> fl list list" where
  "as_rows (Scal x) = [[x]]"
| "as_rows (Vec v) = [v]"
| "as_rows (Mat A) = A"

fun ndim :: "ndarray \<Rightarrow> nat" where
  "ndim (Scal x) = 0"
| "ndim (Vec v) = 1"
| "ndim (Mat A) = 2"

definition ncols :: "fl list list \<Rightarrow> nat" where
  "ncols A = (case A of [] \<Rightarrow> 0 | r # _ \<Rightarrow> length r)"

definition stretch :: "nat \<Rightarrow> 'a list \<Rightarrow> 'a list" where
  "stretch n xs = (case xs of [x] \<Rightarrow> replicate n x | _ \<Rightarrow> xs)"

definition of_rows :: "nat \<Rightarrow> fl list list \<Rightarrow> ndarray" where
  "of_rows d A = (if d = 0 then Scal (hd (hd A)) else if d = 1 then Vec (hd A) else Mat A)"

definition np_binop :: "(fl \<Rightarrow> fl \<Rightarrow> fl) \<Rightarrow> ndarray \<Rightarrow> ndarray \<Rightarrow> error + ndarray" where
  "np_binop f a b =
     (let A = as_rows a; B = as_rows b;
          r = (if length A = 1 then length B else length A);
          c = (if ncols A = 1 then ncols B else ncols A)
      in if (length A = length B \<or> length A = 1 \<or> length B = 1)
            \<and> (ncols A = ncols B \<or> ncols A = 1 \<or> ncols B = 1)
         then Inr (of_rows (max (ndim a) (ndim b))
                (map2 (map2 f) (map (stretch c) (stretch r A)) (map (stretch c) (stretch r B))))
         else Inl ValueError)"

text \<open>
  \<open>numpy.linalg.inv\<close>. In \<open>update\<close> its argument is the 1x1 innovation variance
  \<open>H P H\<^sup>T + R\<close>: a zero entry is a singular matrix and raises \<open>LinAlgError\<close>. No other
  shape reaches it there (the stored covariances are 2x2); for such an argument the model
  raises.
\<close>

fun linalg_inv :: "ndarray \<Rightarrow> error + ndarray" where
  "linalg_inv (Mat [[x]]) = (if x = Fin 0 then Inl LinAlgError else Inr (Mat [[fdiv (Fin 1) x]]))"
| "linalg_inv _ = Inl LinAlgError"

definition of_vec2 :: "vec2 \<Rightarrow> ndarray" where
  "of_vec2 v = Vec [fst v, snd v]"

fun of_mat2 :: "mat2 \<Rightarrow> ndarray" where
  "of_mat2 (a, b, c, d) = Mat [[a, b], [c, d]]"

text \<open>
  \<open>np.vstack([state_means, new_state_mean])\<close> appends the rows of the new array to the
  N x 2 trajectory and raises unless they have two columns;
  \<open>new_state_covariance.reshape(1, 2, 2)\<close> raises unless the array has four entries.
\<close>

definition rows_vec2 :: "ndarray \<Rightarrow> error + vec2 list" where
  "rows_vec2 a =
     (if list_all (\<lambda>r. length r = 2) (as_rows a)
      then Inr (map (\<lambda>r. (r ! 0, r ! 1)) (as_rows a)) else Inl ValueError)"

definition reshape_1_2_2 :: "ndarray \<Rightarrow> error + mat2" where
  "reshape_1_2_2 a =
     (case np_flatten a of [p, q, r, t] \<Rightarrow> Inr (p, q, r, t) | _ \<Rightarrow> Inl ValueError)"


section \<open>PairsKalmanFilter\<close>

text \<open>
  The fields of the class. A field that is \<open>None\<close> in Python is \<open>None\<close> here. A pandas
  Series is the list of its values: \<open>spreads\<close> and \<open>z_scores\<close> are indexed by position,
  and \<open>hedge_ratios\<close> carries the index of \<open>price_a\<close>, which has the same length.
\<close>

record kf_state =
  observation_covariance :: fl
  delta :: fl
  transition_covariance :: fl
  initial_state_covariance :: fl
  kf :: "pykalman option"
  is_initialized :: bool
  state_means :: "vec2 list option"
  state_covariances :: "mat2 list option"
  spreads :: "fl list option"
  z_scores :: "fl list option"
  hedge_ratios :: "fl list option"

text \<open>\<open>__init__\<close> (lines 28 to 53). The quotient \<open>delta / (1 - delta)\<close> is a division of
  Python floats.\<close>

definition PairsKalmanFilter :: "fl \<Rightarrow> fl \<Rightarrow> fl \<Rightarrow> error + kf_state" where
  "PairsKalmanFilter obs_cov dlt init_cov =
     ebind (py_div dlt (fsub (Fin 1) dlt)) (\<lambda>tc.
       Inr \<lparr> observation_covariance = obs_cov, delta = dlt, transition_covariance = tc,
             initial_state_covariance = init_cov, kf = None, is_initialized = False,
             state_means = None, state_covariances = None, spreads = None,
             z_scores = None, hedge_ratios = None \<rparr>)"

text \<open>The estimator \<open>PairsKalmanFilter()\<close> built with the default arguments
  \<open>0.001\<close>, \<open>0.0001\<close> and \<open>1.0\<close>.\<close>

definition default_filter :: kf_state where
  "default_filter =
     \<lparr> observation_covariance = Fin (1 / 1000), delta = Fin (1 / 10000),
       transition_covariance = Fin (1 / 9999), initial_state_covariance = Fin 1,
       kf = None, is_initialized = False, state_means = None, state_covariances = None,
       spreads = None, z_scores = None, hedge_ratios = None \<rparr>"

text \<open>\<open>_calculate_spreads_and_z_scores\<close> (lines 114 to 129): per time step, the spread is
  the observation minus \<open>H\<^sub>t m\<^sub>t\<close> and the z-score divides it by \<open>sqrt (H\<^sub>t P\<^sub>t H\<^sub>t\<^sup>T)\<close>,
  with the filtered mean and covariance of that step.\<close>

definition stored :: "'a option \<Rightarrow> error + 'a" where
  "stored a = (case a of None \<Rightarrow> Inl AttributeError | Some x \<Rightarrow> Inr x)"

definition calculate_spreads_and_z_scores ::
  "kf_state \<Rightarrow> fl list \<Rightarrow> vec2 list \<Rightarrow> error + kf_state" where
  "calculate_spreads_and_z_scores s log_price_a obs_matrices =
     ebind (stored (state_means s)) (\<lambda>means.
     let expected_values = map2 dot2 obs_matrices means;
         sp = map2 fsub log_price_a expected_values;
         s1 = s\<lparr>spreads := Some sp\<rparr>
     in ebind (stored (state_covariances s1)) (\<lambda>covs.
        let forecast_variances = map2 (\<lambda>H P. dot2 H (mat2_vec P H)) obs_matrices covs
        in Inr (s1\<lparr>z_scores := Some (map2 (\<lambda>x v. fdiv x (fsqrt v)) sp forecast_variances)\<rparr>)))"

text \<open>The filter object that \<open>initialize\<close> builds from the estimator's parameters and
  the observation rows (lines 84 to 93).\<close>

definition KalmanFilter :: "kf_state \<Rightarrow> vec2 list \<Rightarrow> pykalman" where
  "KalmanFilter s obs_matrices =
     \<lparr> initial_state_mean = (Fin 0, Fin 0),
       initial_state_cov = eye2_times (initial_state_covariance s),
       transition_matrices = eye2,
       observation_matrices = obs_matrices,
       observation_cov = observation_covariance s,
       transition_cov = eye2_times (transition_covariance s) \<rparr>"

text \<open>\<open>initialize\<close> (lines 55 to 112). Every exception of the body is caught: the
  estimator is marked uninitialized and \<open>False\<close> is returned; fields assigned before the
  exception keep their new value.\<close>

definition initialize :: "kf_state \<Rightarrow> fl list \<Rightarrow> fl list \<Rightarrow> bool \<times> kf_state" where
  "initialize s price_a price_b =
     (if length price_a \<noteq> length price_b then (False, s\<lparr>is_initialized := False\<rparr>)
      else if length price_a < 50 then (False, s\<lparr>is_initialized := False\<rparr>)
      else
        let log_price_a = map flog price_a;
            log_price_b = map flog price_b;
            obs_matrices = map (\<lambda>b. (Fin 1, b)) log_price_b;
            k = KalmanFilter s obs_matrices;
            s1 = s\<lparr>kf := Some k\<rparr>
        in case kf_filter k log_price_a of
             Inl e \<Rightarrow> (False, s1\<lparr>is_initialized := False\<rparr>)
           | Inr (means, covs) \<Rightarrow>
               let s2 = s1\<lparr>state_means := Some means, state_covariances := Some covs\<rparr>
               in case calculate_spreads_and_z_scores s2 log_price_a obs_matrices of
                    Inl e \<Rightarrow> (False, s2\<lparr>is_initialized := False\<rparr>)
                  | Inr s3 \<Rightarrow>
                      (True, s3\<lparr>hedge_ratios := Some (map snd means), is_initialized := True\<rparr>))"

text \<open>Reading the last entry of a stored array: subscripting \<open>None\<close> raises
  \<open>TypeError\<close>, an attribute of \<open>None\<close> raises \<open>AttributeError\<close>, and index \<open>-1\<close> of an
  empty array raises \<open>IndexError\<close>.\<close>

definition last_entry :: "'a list option \<Rightarrow> error + 'a" where
  "last_entry a =
     (case a of None \<Rightarrow> Inl TypeError | Some [] \<Rightarrow> Inl IndexError | Some xs \<Rightarrow> Inr (last xs))"

definition iloc_last :: "'a list option \<Rightarrow> error + 'a" where
  "iloc_last a =
     (case a of None \<Rightarrow> Inl AttributeError | Some [] \<Rightarrow> Inl IndexError
      | Some xs \<Rightarrow> Inr (last xs))"

text \<open>
  The first half of the \<open>try\<close> block of \<open>update\<close> (lines 146 to 169), up to the new mean
  and covariance. It returns the observation row, the log of \<open>price_a\<close> and the two new
  arrays. Line 154 takes the last row of \<open>state_means\<close>, a 1-d array of two entries, so the
  product \<open>observation_matrix @ predicted_state_mean\<close> of lines 167 and 168 is a 1-d
  array, and the index \<open>[0, 0]\<close> applied to it raises.
\<close>

definition kalman_step :: "kf_state \<Rightarrow> fl \<Rightarrow> fl \<Rightarrow> error + (ndarray \<times> fl \<times> ndarray \<times> ndarray)" where
  "kalman_step s price_a price_b =
     (let log_price_a = flog price_a;
          log_price_b = flog price_b;
          observation_matrix = Mat [[Fin 1, log_price_b]]
      in ebind (last_entry (state_means s)) (\<lambda>m.
         ebind (last_entry (state_covariances s)) (\<lambda>P.
         let current_state_mean = of_vec2 m;
             current_state_covariance = of_mat2 P;
             predicted_state_mean = current_state_mean
         in ebind (np_binop fmul (of_mat2 eye2) (Scal (transition_covariance s))) (\<lambda>q.
            ebind (np_binop fadd current_state_covariance q) (\<lambda>predicted_state_covariance.
            ebind (np_matmul predicted_state_covariance (np_T observation_matrix)) (\<lambda>pht.
            ebind (np_matmul observation_matrix predicted_state_covariance) (\<lambda>hp.
            ebind (np_matmul hp (np_T observation_matrix)) (\<lambda>hpht.
            ebind (np_binop fadd hpht (Scal (observation_covariance s))) (\<lambda>innovation_cov.
            ebind (linalg_inv innovation_cov) (\<lambda>inv.
            ebind (np_matmul pht inv) (\<lambda>kalman_gain.
            ebind (np_matmul observation_matrix predicted_state_mean) (\<lambda>hm.
            ebind (np_index2 hm 0 0) (\<lambda>predicted_observation.
            ebind (np_binop fmul (Vec (np_flatten kalman_gain))
                     (Scal (fsub log_price_a predicted_observation))) (\<lambda>correction.
            ebind (np_binop fadd predicted_state_mean correction) (\<lambda>new_state_mean.
            ebind (np_matmul kalman_gain observation_matrix) (\<lambda>kh.
            ebind (np_binop fsub (of_mat2 eye2) kh) (\<lambda>i_kh.
            ebind (np_matmul i_kh predicted_state_covariance) (\<lambda>new_state_covariance.
            Inr (observation_matrix, log_price_a, new_state_mean, new_state_covariance)
         ))))))))))))))))))"

text \<open>The second half of the \<open>try\<close> block (lines 175 to 188): the values returned for
  the tick.\<close>

definition update_outputs ::
  "kf_state \<Rightarrow> ndarray \<Rightarrow> fl \<Rightarrow> ndarray \<Rightarrow> ndarray \<Rightarrow> error + (fl \<times> fl \<times> fl)" where
  "update_outputs s observation_matrix log_price_a new_state_mean new_state_covariance =
     ebind (np_matmul observation_matrix new_state_mean) (\<lambda>expected_value.
     ebind (np_index2 expected_value 0 0) (\<lambda>ev.
     let spread = fsub log_price_a ev
     in ebind (np_matmul observation_matrix new_state_covariance) (\<lambda>hp.
        ebind (np_matmul hp (np_T observation_matrix)) (\<lambda>hpht.
        ebind (np_binop fadd hpht (Scal (observation_covariance s))) (\<lambda>fv.
        ebind (np_index2 fv 0 0) (\<lambda>forecast_variance.
        let z_score = fdiv spread (fsqrt forecast_variance)
        in ebind (np_item new_state_mean 1) (\<lambda>hedge_ratio.
           Inr (hedge_ratio, z_score, spread))))))))"

text \<open>The \<open>try\<close> block as a whole, with the two assignments of lines 172 and 173 between
  its halves: the result, or the exception, and the state at that point.\<close>

definition update_try :: "kf_state \<Rightarrow> fl \<Rightarrow> fl \<Rightarrow> (error + (fl \<times> fl \<times> fl)) \<times> kf_state" where
  "update_try s price_a price_b =
     (case kalman_step s price_a price_b of
        Inl e \<Rightarrow> (Inl e, s)
      | Inr (observation_matrix, log_price_a, new_state_mean, new_state_covariance) \<Rightarrow>
          (case ebind (stored (state_means s)) (\<lambda>ms.
                  ebind (rows_vec2 new_state_mean) (\<lambda>rows. Inr (ms @ rows))) of
             Inl e \<Rightarrow> (Inl e, s)
           | Inr ms \<Rightarrow>
               let s1 = s\<lparr>state_means := Some ms\<rparr>
               in (case ebind (stored (state_covariances s1)) (\<lambda>cs.
                         ebind (reshape_1_2_2 new_state_covariance) (\<lambda>c. Inr (cs @ [c]))) of
                     Inl e \<Rightarrow> (Inl e, s1)
                   | Inr cs \<Rightarrow>
                       let s2 = s1\<lparr>state_covariances := Some cs\<rparr>
                       in (update_outputs s2 observation_matrix log_price_a
                             new_state_mean new_state_covariance, s2))))"

text \<open>
  \<open>update\<close> (lines 131 to 193). Before initialization it raises \<open>RuntimeError\<close>. An
  exception of the \<open>try\<close> block is caught, and the handler returns the last entries of
  the three stored series; an exception of the handler itself leaves the method.
\<close>

definition last_known :: "kf_state \<Rightarrow> error + (fl \<times> fl \<times> fl)" where
  "last_known s =
     ebind (iloc_last (hedge_ratios s)) (\<lambda>h.
     ebind (iloc_last (z_scores s)) (\<lambda>z.
     ebind (iloc_last (spreads s)) (\<lambda>sp. Inr (h, z, sp))))"

definition update :: "kf_state \<Rightarrow> fl \<Rightarrow> fl \<Rightarrow> (error + (fl \<times> fl \<times> fl)) \<times> kf_state" where
  "update s price_a price_b =
     (if \<not> is_initialized s then (Inl RuntimeError, s)
      else case update_try s price_a price_b of
             (Inr r, s') \<Rightarrow> (Inr r, s')
           | (Inl e, s') \<Rightarrow> (last_known s', s'))"


text \<open>\<open>get_current_state\<close> (lines 195 to 206) and \<open>get_historical_data\<close> (lines 208 to
  218) return a dictionary, empty before initialization. The Series of the intercepts is
  built on the index of \<open>hedge_ratios\<close>, and pandas raises \<open>ValueError\<close> when the two
  lengths differ.\<close>

definition get_current_state :: "kf_state \<Rightarrow> error + (string \<rightharpoonup> fl)" where
  "get_current_state s =
     (if \<not> is_initialized s then Inr Map.empty
      else ebind (iloc_last (hedge_ratios s)) (\<lambda>h.
           ebind (iloc_last (z_scores s)) (\<lambda>z.
           ebind (iloc_last (spreads s)) (\<lambda>sp.
           ebind (last_entry (state_means s)) (\<lambda>m.
           ebind (last_entry (state_covariances s)) (\<lambda>P.
           Inr [''hedge_ratio'' \<mapsto> h, ''z_score'' \<mapsto> z, ''spread'' \<mapsto> sp,
                ''intercept'' \<mapsto> fst m, ''state_variance'' \<mapsto> np_trace P]))))))"

definition get_historical_data :: "kf_state \<Rightarrow> error + (string \<rightharpoonup> fl list option)" where
  "get_historical_data s =
     (if \<not> is_initialized s then Inr Map.empty
      else ebind (case state_means s of None \<Rightarrow> Inl TypeError | Some ms \<Rightarrow> Inr ms) (\<lambda>ms.
           ebind (stored (hedge_ratios s)) (\<lambda>hr.
           if length ms \<noteq> length hr then Inl ValueError
           else Inr [''hedge_ratios'' \<mapsto> hedge_ratios s, ''z_scores'' \<mapsto> z_scores s,
                     ''spreads'' \<mapsto> spreads s, ''intercepts'' \<mapsto> Some (map fst ms)])))"

text \<open>\<open>reset\<close> (lines 220 to 229).\<close>

definition reset :: "kf_state \<Rightarrow> kf_state" where
  "reset s = s\<lparr> kf := None, is_initialized := False, state_means := None,
                state_covariances := None, spreads := None, z_scores := None,
                hedge_ratios := None \<rparr>"

text \<open>
  \<open>Series.tail(20)\<close> keeps the last twenty entries (all of a shorter Series), and
  \<open>Series.var()\<close> is the sample variance (divisor \<open>n - 1\<close>) of the entries that are not
  \<open>NaN\<close>, \<open>NaN\<close> itself when fewer than two remain.
\<close>

definition tail :: "nat \<Rightarrow> 'a list \<Rightarrow> 'a list" where
  "tail n xs = drop (length xs - n) xs"

definition dropna :: "fl list \<Rightarrow> fl list" where
  "dropna xs = filter (\<lambda>x. \<not> is_nan x) xs"

definition fsum :: "fl list \<Rightarrow> fl" where
  "fsum xs = foldl fadd (Fin 0) xs"

definition series_var :: "fl list \<Rightarrow> fl" where
  "series_var xs =
     (let vs = dropna xs; n = length vs
      in if n \<le> 1 then NaN
         else let avg = fdiv (fsum vs) (Fin (real n))
              in fdiv (fsum (map (\<lambda>x. fmul (fsub avg x) (fsub avg x)) vs)) (Fin (real (n - 1))))"

text \<open>\<open>get_confidence\<close> (lines 231 to 258): \<open>0.0\<close> before initialization, \<open>0.5\<close> when
  the computation raises. The two components of lines 248 and 249 are functions of the
  state variance (the trace of the last covariance) and of the variance of the recent
  hedge ratios.\<close>

definition state_confidence :: "fl \<Rightarrow> fl" where
  "state_confidence state_variance =
     py_max (Fin 0) (fsub (Fin 1) (fdiv state_variance (Fin (1 / 10))))"

definition stability_confidence :: "fl \<Rightarrow> fl" where
  "stability_confidence hedge_ratio_variance =
     py_max (Fin 0) (fsub (Fin 1) (fdiv hedge_ratio_variance (Fin (1 / 100))))"

definition confidence_try :: "kf_state \<Rightarrow> error + fl" where
  "confidence_try s =
     ebind (last_entry (state_covariances s)) (\<lambda>P.
     let state_variance = np_trace P
     in ebind (stored (hedge_ratios s)) (\<lambda>hr.
        let recent_hedge_ratios = tail 20 hr;
            hedge_ratio_variance = series_var recent_hedge_ratios;
            confidence = fdiv (fadd (state_confidence state_variance)
                                (stability_confidence hedge_ratio_variance)) (Fin 2)
        in Inr (py_min (Fin 1) (py_max (Fin 0) confidence))))"

definition get_confidence :: "kf_state \<Rightarrow> fl" where
  "get_confidence s =
     (if \<not> is_initialized s then Fin 0
      else case confidence_try s of Inl e \<Rightarrow> Fin (1 / 2) | Inr c \<Rightarrow> c)"


section \<open>PairsTradingStrategy\<close>

datatype signal = NO_SIGNAL | ENTER_LONG_SPREAD | ENTER_SHORT_SPREAD | EXIT_POSITION

text \<open>
  The fields of the strategy. \<open>current_position\<close> is \<open>-1\<close> (short spread), \<open>0\<close> (flat) or
  \<open>1\<close> (long spread); \<open>current_half_life\<close> is \<open>None\<close> until the first computation, and
  \<open>update_count\<close> is \<open>None\<close> while the attribute \<open>_update_count\<close> does not exist.
\<close>

record strategy =
  entry_threshold :: fl
  exit_threshold :: fl
  max_half_life_days :: fl
  kalman_filter :: kf_state
  current_position :: int
  current_half_life :: "fl option"
  update_count :: "nat option"

text \<open>The dictionary returned by the strategy's \<open>update\<close>, with its seven fixed keys.\<close>

record tick_result =
  r_signal :: signal
  r_hedge_ratio :: fl
  r_z_score :: fl
  r_spread :: fl
  r_confidence :: fl
  r_current_position :: int
  r_half_life :: "fl option"

text \<open>\<open>__init__\<close> (lines 267 to 286), with the default estimator
  \<open>PairsKalmanFilter(0.001, 0.0001, 1.0)\<close>.\<close>

definition PairsTradingStrategy :: "fl \<Rightarrow> fl \<Rightarrow> fl \<Rightarrow> error + strategy" where
  "PairsTradingStrategy entry exit max_days =
     ebind (PairsKalmanFilter (Fin (1 / 1000)) (Fin (1 / 10000)) (Fin 1)) (\<lambda>k.
       Inr \<lparr> entry_threshold = entry, exit_threshold = exit, max_half_life_days = max_days,
             kalman_filter = k, current_position = 0, current_half_life = None,
             update_count = None \<rparr>)"

text \<open>
  \<open>_calculate_half_life\<close> (lines 297 to 334). After \<open>dropna\<close> the spreads hold no
  \<open>NaN\<close>, so the lagged series loses only its first position, and the common index is the
  set of positions whose difference is not \<open>NaN\<close>.

  The regression is done by the statsmodels library. \<open>sm.add_constant\<close> turns the lagged
  spreads, a Series without a name, into a table whose column is labelled with the integer
  \<open>0\<close>, and puts a column \<open>const\<close> of ones in front of it unless the data are already a
  non-zero constant. The fit is a parameter \<open>ols\<close> here: it takes the differences and the
  columns and returns one coefficient per column, or raises. \<open>model.params\<close> is the Series
  of these coefficients under the labels of the columns, and line 324 reads
  \<open>model.params[1]\<close>: with an integer among the labels pandas looks the key \<open>1\<close> up as a
  label (\<open>KeyError\<close> when no column has it), and by position only when no label is an
  integer. Every exception gives the infinite half-life.
\<close>

datatype label = Column_name string | Column_number int

fun is_number :: "label \<Rightarrow> bool" where
  "is_number (Column_number i) = True"
| "is_number (Column_name n) = False"

type_synonym regression = "fl list \<Rightarrow> fl list list \<Rightarrow> error + fl list"

definition aligned_pairs :: "fl list \<Rightarrow> (fl \<times> fl) list" where
  "aligned_pairs sp =
     filter (\<lambda>(lagged, d). \<not> is_nan d) (zip (butlast sp) (map2 fsub (tl sp) (butlast sp)))"

definition is_constant_column :: "fl list \<Rightarrow> bool" where
  "is_constant_column xs =
     (case xs of [] \<Rightarrow> False
      | x # rest \<Rightarrow> is_finite x \<and> x \<noteq> Fin 0 \<and> list_all (\<lambda>y. y = x) rest)"

definition add_constant :: "fl list \<Rightarrow> (label \<times> fl list) list" where
  "add_constant xs =
     (if is_constant_column xs then [(Column_number 0, xs)]
      else [(Column_name ''const'', map (\<lambda>x. Fin 1) xs), (Column_number 0, xs)])"

definition series_getitem :: "(label \<times> fl) list \<Rightarrow> int \<Rightarrow> error + fl" where
  "series_getitem params i =
     (if list_ex (\<lambda>p. is_number (fst p)) params
      then (case map_of params (Column_number i) of
              None \<Rightarrow> Inl KeyError | Some v \<Rightarrow> Inr v)
      else let n = int (length params); j = (if i < 0 then n + i else i)
           in if 0 \<le> j \<and> j < n then Inr (snd (params ! nat j)) else Inl IndexError)"

definition half_life_try :: "regression \<Rightarrow> kf_state \<Rightarrow> error + fl" where
  "half_life_try ols k =
     ebind (stored (spreads k)) (\<lambda>series.
     let sp = dropna series
     in if length sp < 50 then Inr PInf
        else let common = aligned_pairs sp
             in if length common < 30 then Inr PInf
                else let lagged_spread = map fst common;
                         delta_spread = map snd common;
                         X = add_constant lagged_spread
                     in ebind (ols delta_spread (map snd X)) (\<lambda>coefficients.
                        let params = zip (map fst X) coefficients
                        in ebind (series_getitem params 1) (\<lambda>beta.
                             if fle (Fin 0) beta then Inr PInf
                             else Inr (fdiv (fneg (flog (Fin 2))) beta))))"

definition calculate_half_life :: "regression \<Rightarrow> kf_state \<Rightarrow> fl" where
  "calculate_half_life ols k = (case half_life_try ols k of Inl e \<Rightarrow> PInf | Inr h \<Rightarrow> h)"

text \<open>The strategy's \<open>initialize\<close> (lines 288 to 295).\<close>

definition strategy_initialize :: "regression \<Rightarrow> strategy \<Rightarrow> fl list \<Rightarrow> fl list \<Rightarrow> bool \<times> strategy" where
  "strategy_initialize ols st price_a price_b =
     (case initialize (kalman_filter st) price_a price_b of
        (success, k) \<Rightarrow>
          let st1 = st\<lparr>kalman_filter := k\<rparr>
          in if success then (True, st1\<lparr>current_half_life := Some (calculate_half_life ols k)\<rparr>)
             else (False, st1))"

text \<open>\<open>_generate_signal\<close> (lines 390 to 416).\<close>

definition generate_signal :: "strategy \<Rightarrow> fl \<Rightarrow> fl \<Rightarrow> signal" where
  "generate_signal st z_score confidence =
     (if (case current_half_life st of None \<Rightarrow> False
          | Some h \<Rightarrow> flt (max_half_life_days st) h) then NO_SIGNAL
      else if flt confidence (Fin (7 / 10)) then NO_SIGNAL
      else if current_position st = 0 then
        (if fle z_score (fneg (entry_threshold st)) then ENTER_LONG_SPREAD
         else if fle (entry_threshold st) z_score then ENTER_SHORT_SPREAD
         else NO_SIGNAL)
      else if current_position st = 1 then
        (if fle (fneg (exit_threshold st)) z_score then EXIT_POSITION else NO_SIGNAL)
      else if current_position st = - 1 then
        (if fle z_score (exit_threshold st) then EXIT_POSITION else NO_SIGNAL)
      else NO_SIGNAL)"

text \<open>\<open>_update_position_tracking\<close> (lines 418 to 425).\<close>

fun update_position_tracking :: "strategy \<Rightarrow> signal \<Rightarrow> fl \<Rightarrow> strategy" where
  "update_position_tracking st ENTER_LONG_SPREAD z_score = st\<lparr>current_position := 1\<rparr>"
| "update_position_tracking st ENTER_SHORT_SPREAD z_score = st\<lparr>current_position := - 1\<rparr>"
| "update_position_tracking st EXIT_POSITION z_score = st\<lparr>current_position := 0\<rparr>"
| "update_position_tracking st NO_SIGNAL z_score = st"

text \<open>
  The strategy's \<open>update\<close> (lines 336 to 388). The only exception that reaches its handler
  is one that leaves the estimator's \<open>update\<close>; the handler returns \<open>NO_SIGNAL\<close> with the
  four numbers set to \<open>0.0\<close>.
\<close>

definition strategy_update :: "regression \<Rightarrow> strategy \<Rightarrow> fl \<Rightarrow> fl \<Rightarrow> tick_result \<times> strategy" where
  "strategy_update ols st price_a price_b =
     (case update (kalman_filter st) price_a price_b of
        (Inl e, k) \<Rightarrow>
          let st1 = st\<lparr>kalman_filter := k\<rparr>
          in (\<lparr> r_signal = NO_SIGNAL, r_hedge_ratio = Fin 0, r_z_score = Fin 0,
                r_spread = Fin 0, r_confidence = Fin 0,
                r_current_position = current_position st1,
                r_half_life = current_half_life st1 \<rparr>, st1)
      | (Inr (hedge_ratio, z_score, spread), k) \<Rightarrow>
          let st1 = st\<lparr>kalman_filter := k\<rparr>;
              confidence = get_confidence k;
              n = (case update_count st1 of Some c \<Rightarrow> c + 1 | None \<Rightarrow> 1);
              st2 = st1\<lparr>update_count := Some n\<rparr>;
              st3 = (if n mod 20 = 0
                     then st2\<lparr>current_half_life := Some (calculate_half_life ols k)\<rparr>
                     else st2);
              sig = generate_signal st3 z_score confidence;
              st4 = update_position_tracking st3 sig z_score
          in (\<lparr> r_signal = sig, r_hedge_ratio = hedge_ratio, r_z_score = z_score,
                r_spread = spread, r_confidence = confidence,
                r_current_position = current_position st4,
                r_half_life = current_half_life st4 \<rparr>, st4))"

text \<open>
  The decision machine of one tick: the two calls of lines 363 and 366, for a z-score and a
  confidence. \<open>run_ticks\<close> feeds a sequence of them and collects, for every tick, the signal and the
  position after it.
\<close>

definition decide :: "strategy \<Rightarrow> fl \<times> fl \<Rightarrow> signal \<times> strategy" where
  "decide st zc =
     (let sig = generate_signal st (fst zc) (snd zc)
      in (sig, update_position_tracking st sig (fst zc)))"

fun run_ticks :: "strategy \<Rightarrow> (fl \<times> fl) list \<Rightarrow> (signal \<times> int) list" where
  "run_ticks st [] = []"
| "run_ticks st (zc # rest) =
     (case decide st zc of
        (sig, st') \<Rightarrow> (sig, current_position st') # run_ticks st' rest)"

text \<open>A sequence of online updates of the estimator, each on the state the previous one
  left.\<close>

fun updates :: "kf_state \<Rightarrow> (fl \<times> fl) list \<Rightarrow> kf_state" where
  "updates s [] = s"
| "updates s ((price_a, price_b) # rest) = updates (snd (update s price_a price_b)) rest"


text \<open>The strategy \<open>PairsTradingStrategy(2.0, 0.5, 45)\<close>, as the tests and the spec's
  hysteresis scenario configure it.\<close>

definition default_strategy :: strategy where
  "default_strategy =
     \<lparr> entry_threshold = Fin 2, exit_threshold = Fin (1 / 2), max_half_life_days = Fin 45,
       kalman_filter = default_filter, current_position = 0, current_half_life = None,
       update_count = None \<rparr>"

text \<open>The inputs the estimator is specified for: positive finite prices.\<close>

fun positive :: "fl \<Rightarrow> bool" where
  "positive (Fin a) = (0 < a)"
| "positive _ = False"

text \<open>What a successful \<open>initialize\<close> on \<open>n\<close> points leaves behind: the five stored
  arrays, each with \<open>n\<close> entries, the hedge ratios being the second components of the state
  means.\<close>

definition histories :: "kf_state \<Rightarrow> nat \<Rightarrow> bool" where
  "histories s n \<longleftrightarrow>
     (\<exists>ms Ps sp zs. state_means s = Some ms \<and> state_covariances s = Some Ps
        \<and> spreads s = Some sp \<and> z_scores s = Some zs \<and> hedge_ratios s = Some (map snd ms)
        \<and> length ms = n \<and> length Ps = n \<and> length sp = n \<and> length zs = n)"

text \<open>Two price histories of fifty points for the examples: a rising pair, and a pair
  that stays at \<open>1.0\<close> (log price \<open>0\<close>).\<close>

definition rising_a :: "fl list" where
  "rising_a = map (\<lambda>i. Fin (100 + real i / 5)) [0..<50]"

definition rising_b :: "fl list" where
  "rising_b = map (\<lambda>i. Fin (50 + real i / 10)) [0..<50]"

definition flat_prices :: "fl list" where
  "flat_prices = replicate 50 (Fin 1)"

text \<open>
  A regression routine for the examples, in the role of the library's: for a column of ones
  and one regressor, the least-squares constant and slope through finite data, by their
  closed form. It raises for any other table, when an entry is not finite, when the lists
  differ in length, and when all regressors are equal (no slope is determined).
\<close>

definition least_squares :: regression where
  "least_squares ys columns =
     (case columns of
        [ones, xs] \<Rightarrow>
          (if list_all is_finite xs \<and> list_all is_finite ys \<and> length xs = length ys
              \<and> list_all (\<lambda>x. x = Fin 1) ones
           then let n = Fin (real (length xs));
                    xbar = fdiv (fsum xs) n;
                    ybar = fdiv (fsum ys) n;
                    sxx = fsum (map (\<lambda>x. fmul (fsub x xbar) (fsub x xbar)) xs);
                    sxy = fsum (map2 (\<lambda>x y. fmul (fsub x xbar) (fsub y ybar)) xs ys)
                in if sxx = Fin 0 then Inl ValueError
                   else Inr [fsub ybar (fmul (fdiv sxy sxx) xbar), fdiv sxy sxx]
           else Inl ValueError)
      | _ \<Rightarrow> Inl ValueError)"

text \<open>A price history with a missing first value of \<open>price_a\<close>.\<close>

definition gap_prices :: "fl list" where
  "gap_prices = NaN # replicate 49 (Fin 1)"

text \<open>
  A state covariance is symmetric and positive-semidefinite when its entries are finite, the
  two off-diagonal entries agree, and the diagonal entries and the determinant are not
  negative. For a symmetric 2x2 matrix this is the same as a quadratic form that is never
  negative (lemma \<open>symmetric_psd_quadratic_form\<close> below).
\<close>

fun symmetric_psd :: "mat2 \<Rightarrow> bool" where
  "symmetric_psd (Fin a, Fin b, Fin c, Fin d) = (b = c \<and> 0 \<le> a \<and> 0 \<le> d \<and> b * c \<le> a * d)"
| "symmetric_psd _ = False"

definition quadratic_form :: "real \<Rightarrow> real \<Rightarrow> real \<Rightarrow> real \<Rightarrow> real \<Rightarrow> real \<Rightarrow> real" where
  "quadratic_form a b c d x y = x * (a * x + b * y) + y * (c * x + d * y)"

text \<open>
  With both prices at \<open>1.0\<close> every observation row is \<open>[1, 0]\<close> and every observation is
  \<open>0\<close>: the state mean stays at zero and the covariance stays diagonal. \<open>flat_entry\<close> is
  such a filtered step, and \<open>flat_config\<close> the parameters for which the first filtered
  variance of the intercept is positive.
\<close>

definition flat_entry :: "real \<Rightarrow> real \<Rightarrow> vec2 \<times> mat2" where
  "flat_entry x d = ((Fin 0, Fin 0), (Fin x, Fin 0, Fin 0, Fin d))"

definition flat_config :: "kf_state \<Rightarrow> real \<Rightarrow> real \<Rightarrow> real \<Rightarrow> bool" where
  "flat_config s r q c \<longleftrightarrow>
     observation_covariance s = Fin r \<and> transition_covariance s = Fin q
     \<and> initial_state_covariance s = Fin c \<and> 0 < r \<and> 0 \<le> q \<and> c + r \<noteq> 0
     \<and> 0 < c * r / (c + r)"

text \<open>The default estimator with a negative \<open>initial_state_covariance\<close> of \<open>-1.0\<close>.\<close>

definition negative_prior_filter :: kf_state where
  "negative_prior_filter = default_filter\<lparr>initial_state_covariance := Fin (- 1)\<rparr>"

text \<open>
  The innovation as the specification words it: the log of \<open>price_a\<close> minus the
  observation row \<open>[1, log price_b]\<close> applied to the predicted mean, which under the
  random-walk transition is the last stored mean.
\<close>

definition innovation :: "kf_state \<Rightarrow> fl \<Rightarrow> fl \<Rightarrow> error + fl" where
  "innovation s price_a price_b =
     ebind (last_entry (state_means s)) (\<lambda>predicted_mean.
       Inr (fsub (flog price_a) (dot2 (Fin 1, flog price_b) predicted_mean)))"

text \<open>An observation row and an observation with finite entries.\<close>

definition finite_input :: "vec2 \<times> fl \<Rightarrow> bool" where
  "finite_input x \<longleftrightarrow> is_finite (fst (fst x)) \<and> is_finite (snd (fst x)) \<and> is_finite (snd x)"

text \<open>A spread series for the examples: \<open>1, -1, 1, -1, ...\<close>, which reverts by twice its
  value at every step.\<close>

definition alternating :: "nat \<Rightarrow> fl list" where
  "alternating n = map (\<lambda>i. Fin (if even i then 1 else - 1)) [0..<n]"

section \<open>Exceptions in sequence\<close>

lemma ebind_simps [simp]: "ebind (Inl e) f = Inl e" "ebind (Inr x) f = f x"
  by (simp_all add: ebind_def)

lemma ebind_raises: "(\<And>x. \<exists>e. f x = Inl e) \<Longrightarrow> \<exists>e. ebind m f = Inl e"
  by (cases m) auto

lemma default_filter_constructed:
  "PairsKalmanFilter (Fin (1 / 1000)) (Fin (1 / 10000)) (Fin 1) = Inr default_filter"
  by (simp add: PairsKalmanFilter_def py_div_def fsub_def default_filter_def)

section \<open>The online update always takes its exception handler\<close>

text \<open>
  Whatever the state and the prices, the \<open>try\<close> block of \<open>update\<close> raises before it
  assigns anything: the product of the 1x2 observation row and the 1-d state mean is 1-d,
  so the index \<open>[0, 0]\<close> of lines 167 and 168 is an \<open>IndexError\<close> (unless an earlier
  line has raised already).
\<close>

lemma observation_times_mean_raises:
  "\<exists>e. ebind (np_matmul (Mat [[Fin 1, lb]]) (of_vec2 m))
          (\<lambda>hm. ebind (np_index2 hm 0 0) g) = Inl e"
  by (simp add: of_vec2_def)

lemma kalman_step_raises: "\<exists>e. kalman_step s price_a price_b = Inl e"
  unfolding kalman_step_def Let_def
  by (intro ebind_raises observation_times_mean_raises)

lemma update_try_raises: "\<exists>e. update_try s price_a price_b = (Inl e, s)"
  using kalman_step_raises [of s price_a price_b] by (auto simp: update_try_def)

lemma update_eq:
  "update s price_a price_b =
     (if \<not> is_initialized s then (Inl RuntimeError, s) else (last_known s, s))"
  using update_try_raises [of s price_a price_b] by (auto simp: update_def)

lemma updates_same: "updates s ticks = s"
  by (induction ticks arbitrary: s) (auto simp: update_eq)

section \<open>Before initialization\<close>

text \<open>
  Claim C9. Calling \<open>update\<close> on an estimator that is not initialized raises (the code's
  \<open>RuntimeError\<close>), returns no values and leaves the state as it was. This is the case
  of a freshly constructed estimator, of an estimator after \<open>reset\<close>, and of one whose
  \<open>initialize\<close> has just failed.
\<close>

theorem update_before_initialize:
  "(\<not> is_initialized s \<longrightarrow> update s price_a price_b = (Inl RuntimeError, s)) \<and>
   (PairsKalmanFilter r d c = Inr s \<longrightarrow> update s price_a price_b = (Inl RuntimeError, s)) \<and>
   update (reset s) price_a price_b = (Inl RuntimeError, reset s) \<and>
   (fst (initialize s pa pb) = False \<longrightarrow>
      update (snd (initialize s pa pb)) price_a price_b
        = (Inl RuntimeError, snd (initialize s pa pb)))"
  by (auto simp: update_def reset_def PairsKalmanFilter_def py_div_def initialize_def Let_def
      split: if_splits sum.splits prod.splits)

theorem update_before_initialize_witness:
  "\<not> is_initialized default_filter \<and>
   PairsKalmanFilter (Fin (1 / 1000)) (Fin (1 / 10000)) (Fin 1) = Inr default_filter \<and>
   update default_filter (Fin 100) (Fin 50) = (Inl RuntimeError, default_filter) \<and>
   update (reset default_filter) (Fin 100) (Fin 50) = (Inl RuntimeError, reset default_filter) \<and>
   fst (initialize default_filter [Fin 100] [Fin 50]) = False \<and>
   update (snd (initialize default_filter [Fin 100] [Fin 50])) (Fin 100) (Fin 50)
     = (Inl RuntimeError, snd (initialize default_filter [Fin 100] [Fin 50]))"
proof -
  have uninit: "\<not> is_initialized default_filter"
    by (simp add: default_filter_def)
  have failed: "fst (initialize default_filter [Fin 100] [Fin 50]) = False"
    by (simp add: initialize_def)
  show ?thesis
    using update_before_initialize
      [of default_filter "Fin 100" "Fin 50" "Fin (1 / 1000)" "Fin (1 / 10000)" "Fin 1"
        "[Fin 100]" "[Fin 50]"]
      uninit failed default_filter_constructed
    by simp
qed

text \<open>
  Claim C10. On an estimator that is not initialized (never initialized, or reset) the
  read-only accessors do not raise: \<open>get_current_state\<close> and \<open>get_historical_data\<close>
  return the empty dictionary and \<open>get_confidence\<close> returns \<open>0.0\<close>.
\<close>

theorem accessors_before_initialize:
  "(\<not> is_initialized s \<longrightarrow>
      get_current_state s = Inr Map.empty \<and> get_historical_data s = Inr Map.empty
      \<and> get_confidence s = Fin 0) \<and>
   (PairsKalmanFilter r d c = Inr s \<longrightarrow>
      get_current_state s = Inr Map.empty \<and> get_historical_data s = Inr Map.empty
      \<and> get_confidence s = Fin 0) \<and>
   get_current_state (reset s) = Inr Map.empty \<and>
   get_historical_data (reset s) = Inr Map.empty \<and>
   get_confidence (reset s) = Fin 0"
  by (auto simp: get_current_state_def get_historical_data_def get_confidence_def reset_def
      PairsKalmanFilter_def py_div_def split: if_splits)

theorem accessors_before_initialize_witness:
  "\<not> is_initialized default_filter \<and>
   get_current_state default_filter = Inr Map.empty \<and>
   get_historical_data default_filter = Inr Map.empty \<and>
   get_confidence default_filter = Fin 0 \<and>
   get_current_state (reset default_filter) = Inr Map.empty \<and>
   get_historical_data (reset default_filter) = Inr Map.empty \<and>
   get_confidence (reset default_filter) = Fin 0"
proof -
  have uninit: "\<not> is_initialized default_filter"
    by (simp add: default_filter_def)
  show ?thesis
    using accessors_before_initialize
      [of default_filter "Fin (1 / 1000)" "Fin (1 / 10000)" "Fin 1"] uninit
    by simp
qed

section \<open>The decision machine\<close>

lemma default_strategy_constructed:
  "PairsTradingStrategy (Fin 2) (Fin (1 / 2)) (Fin 45) = Inr default_strategy"
  by (simp add: PairsTradingStrategy_def default_filter_constructed default_strategy_def)

text \<open>
  Claim C6. With \<open>entry_threshold = 2.0\<close> and \<open>exit_threshold = 0.5\<close>, starting flat, with
  a confidence of at least \<open>0.7\<close> on every tick and a half-life (if one has been computed)
  of at most the maximum, the z-scores \<open>-2.5, -1.5, -2.5\<close> give the signals
  \<open>ENTER_LONG_SPREAD, NO_SIGNAL, NO_SIGNAL\<close>; the position is long after the first tick
  and stays long. From the long position any later tick exits exactly when its z-score is
  at least \<open>-0.5\<close>, and otherwise gives no signal and keeps the position.
\<close>

theorem hysteresis_long_spread:
  assumes thresholds: "entry_threshold st = Fin 2" "exit_threshold st = Fin (1 / 2)"
    and flat: "current_position st = 0"
    and half_life: "\<And>h. current_half_life st = Some h \<Longrightarrow> fle h (max_half_life_days st)"
    and confident: "fle (Fin (7 / 10)) c1" "fle (Fin (7 / 10)) c2" "fle (Fin (7 / 10)) c3"
  shows "run_ticks st [(Fin (- 5 / 2), c1), (Fin (- 3 / 2), c2), (Fin (- 5 / 2), c3)]
           = [(ENTER_LONG_SPREAD, 1), (NO_SIGNAL, 1), (NO_SIGNAL, 1)] \<and>
         (\<forall>z c. fle (Fin (7 / 10)) c \<longrightarrow>
            decide (st\<lparr>current_position := 1\<rparr>) (z, c)
              = (if fle (Fin (- 1 / 2)) z then (EXIT_POSITION, st\<lparr>current_position := 0\<rparr>)
                 else (NO_SIGNAL, st\<lparr>current_position := 1\<rparr>)))"
proof -
  have gate: "\<not> flt (max_half_life_days st) h" if "current_half_life st = Some h" for h
  proof -
    from that half_life have "fle h (max_half_life_days st)" by simp
    then show ?thesis
      by (cases h; cases "max_half_life_days st") auto
  qed
  have conf: "\<not> flt c (Fin (7 / 10))" if "fle (Fin (7 / 10)) c" for c
    using that by (cases c) auto
  have first: "decide st (Fin (- 5 / 2), c1) = (ENTER_LONG_SPREAD, st\<lparr>current_position := 1\<rparr>)"
    using thresholds flat gate conf [OF confident(1)]
    by (auto simp: decide_def generate_signal_def split: option.splits)
  have long: "decide (st\<lparr>current_position := 1\<rparr>) (z, c)
              = (if fle (Fin (- 1 / 2)) z then (EXIT_POSITION, st\<lparr>current_position := 0\<rparr>)
                 else (NO_SIGNAL, st\<lparr>current_position := 1\<rparr>))"
    if "fle (Fin (7 / 10)) c" for z c
    using thresholds gate conf [OF that]
    by (auto simp: decide_def generate_signal_def split: option.splits)
  show ?thesis
    using first long [OF confident(2), of "Fin (- 3 / 2)"] long [OF confident(3), of "Fin (- 5 / 2)"]
      long
    by simp
qed

theorem hysteresis_long_spread_witness:
  "run_ticks default_strategy
       [(Fin (- 5 / 2), Fin (4 / 5)), (Fin (- 3 / 2), Fin (9 / 10)), (Fin (- 5 / 2), Fin 1)]
     = [(ENTER_LONG_SPREAD, 1), (NO_SIGNAL, 1), (NO_SIGNAL, 1)] \<and>
   decide (default_strategy\<lparr>current_position := 1\<rparr>) (Fin (- 2 / 5), Fin (4 / 5))
     = (EXIT_POSITION, default_strategy\<lparr>current_position := 0\<rparr>) \<and>
   decide (default_strategy\<lparr>current_position := 1\<rparr>) (Fin (- 3 / 5), Fin (4 / 5))
     = (NO_SIGNAL, default_strategy\<lparr>current_position := 1\<rparr>)"
proof -
  have h: "entry_threshold default_strategy = Fin 2"
    "exit_threshold default_strategy = Fin (1 / 2)"
    "current_position default_strategy = 0"
    "\<And>h. current_half_life default_strategy = Some h
       \<Longrightarrow> fle h (max_half_life_days default_strategy)"
    "fle (Fin (7 / 10)) (Fin (4 / 5))" "fle (Fin (7 / 10)) (Fin (9 / 10))"
    "fle (Fin (7 / 10)) (Fin 1)"
    by (simp_all add: default_strategy_def)
  from hysteresis_long_spread [OF h]
  have run: "run_ticks default_strategy
       [(Fin (- 5 / 2), Fin (4 / 5)), (Fin (- 3 / 2), Fin (9 / 10)), (Fin (- 5 / 2), Fin 1)]
     = [(ENTER_LONG_SPREAD, 1), (NO_SIGNAL, 1), (NO_SIGNAL, 1)]"
    and later: "\<And>z c. fle (Fin (7 / 10)) c \<Longrightarrow>
            decide (default_strategy\<lparr>current_position := 1\<rparr>) (z, c)
              = (if fle (Fin (- 1 / 2)) z
                 then (EXIT_POSITION, default_strategy\<lparr>current_position := 0\<rparr>)
                 else (NO_SIGNAL, default_strategy\<lparr>current_position := 1\<rparr>))"
    by blast+
  show ?thesis
    using run later [of "Fin (4 / 5)" "Fin (- 2 / 5)"] later [of "Fin (4 / 5)" "Fin (- 3 / 5)"]
    by simp
qed

section \<open>The batch filter and initialization\<close>

lemma is_finite_iff: "is_finite x \<longleftrightarrow> (\<exists>a. x = Fin a)"
  by (cases x) auto

lemma positive_iff: "positive x \<longleftrightarrow> (\<exists>a. x = Fin a \<and> 0 < a)"
  by (cases x) auto

lemma mat2_finite_iff:
  "mat2_finite P \<longleftrightarrow> (\<exists>a b c d. P = (Fin a, Fin b, Fin c, Fin d))"
  by (cases P) (auto simp: is_finite_iff)

lemma filter_correct_finite:
  assumes "is_finite (fst H)" "is_finite (snd H)" "is_finite R" "mat2_finite P"
  shows "\<exists>m' P'. filter_correct H R m P y = Inr (m', P') \<and> mat2_finite P'"
proof -
  obtain h0 h1 where H: "H = (Fin h0, Fin h1)"
    using assms(1,2) by (cases H) (auto simp: is_finite_iff)
  obtain r where R: "R = Fin r" using assms(3) by (auto simp: is_finite_iff)
  obtain a b c d where P: "P = (Fin a, Fin b, Fin c, Fin d)"
    using assms(4) by (auto simp: mat2_finite_iff)
  show ?thesis
    by (simp add: filter_correct_def H R P dot2_def linalg_pinv_def Let_def vec2_scale_def
        outer2_def fsub_def)
qed

lemma filter_predict_finite:
  assumes "mat2_finite P" "is_finite tc"
  shows "mat2_finite (snd (filter_predict eye2 (eye2_times tc) m P))"
proof -
  obtain q where tc: "tc = Fin q" using assms(2) by (auto simp: is_finite_iff)
  obtain a b c d where P: "P = (Fin a, Fin b, Fin c, Fin d)"
    using assms(1) by (auto simp: mat2_finite_iff)
  show ?thesis
    by (simp add: filter_predict_def eye2_def eye2_times_def tc P dot2_def)
qed

lemma filter_loop_length: "filter_loop k m P xs = Inr r \<Longrightarrow> length r = length xs"
proof (induction xs arbitrary: m P r)
  case Nil
  then show ?case by simp
next
  case (Cons x xs)
  then show ?case
    by (cases x) (auto simp: ebind_def split: prod.splits sum.splits)
qed

lemma filter_loop_succeeds:
  assumes "transition_matrices k = eye2" "transition_cov k = eye2_times tc" "is_finite tc"
    "is_finite (observation_cov k)"
  shows "list_all (\<lambda>(H, y). is_finite (fst H) \<and> is_finite (snd H)) xs \<Longrightarrow> mat2_finite P
      \<Longrightarrow> \<exists>r. filter_loop k m P xs = Inr r"
proof (induction xs arbitrary: m P)
  case Nil
  then show ?case by simp
next
  case (Cons x xs)
  obtain H y where x: "x = (H, y)" by (cases x)
  obtain pm pP where pred: "filter_predict eye2 (eye2_times tc) m P = (pm, pP)"
    by (cases "filter_predict eye2 (eye2_times tc) m P")
  have "mat2_finite pP"
    using filter_predict_finite [OF Cons.prems(2) assms(3), of m] pred by simp
  moreover have "is_finite (fst H)" "is_finite (snd H)"
    using Cons.prems(1) x by auto
  ultimately obtain m' P' where
    corr: "filter_correct H (observation_cov k) pm pP y = Inr (m', P')" and fin: "mat2_finite P'"
    using filter_correct_finite [OF _ _ assms(4), of H pP pm y] by blast
  from Cons.IH [OF _ fin, of m'] Cons.prems(1) obtain r where "filter_loop k m' P' xs = Inr r"
    by auto
  then show ?case
    by (simp add: x assms(1,2) pred corr)
qed


lemma kf_filter_length:
  assumes "kf_filter k ys = Inr (ms, Ps)"
  shows "length ms = min (length (observation_matrices k)) (length ys) \<and> length Ps = length ms"
proof (cases "zip (observation_matrices k) ys")
  case Nil
  then have "min (length (observation_matrices k)) (length ys) = 0" by auto
  moreover from assms have "ms = [] \<and> Ps = []"
    unfolding kf_filter_def Nil by simp
  ultimately show ?thesis by simp
next
  case (Cons x rest)
  obtain H y where x: "x = (H, y)" by (cases x)
  from assms Cons x obtain m P r where
    loop: "filter_loop k m P rest = Inr r" and res: "ms = m # map fst r" "Ps = P # map snd r"
    by (auto simp: kf_filter_def ebind_def split: sum.splits prod.splits)
  have "length (zip (observation_matrices k) ys) = Suc (length rest)"
    using Cons by simp
  then show ?thesis
    using filter_loop_length [OF loop] res by simp
qed

lemma kf_filter_succeeds:
  assumes "transition_matrices k = eye2" "transition_cov k = eye2_times tc" "is_finite tc"
    "is_finite (observation_cov k)" "mat2_finite (initial_state_cov k)"
    "list_all (\<lambda>H. is_finite (fst H) \<and> is_finite (snd H)) (observation_matrices k)"
  shows "\<exists>ms Ps. kf_filter k ys = Inr (ms, Ps)"
proof (cases "zip (observation_matrices k) ys")
  case Nil
  show ?thesis unfolding kf_filter_def Nil by simp
next
  case (Cons x rest)
  obtain H y where x: "x = (H, y)" by (cases x)
  have all: "list_all (\<lambda>(H, y). is_finite (fst H) \<and> is_finite (snd H))
               (zip (observation_matrices k) ys)"
    using assms(6) by (auto simp: list_all_iff dest: set_zip_leftD)
  with Cons x have H: "is_finite (fst H)" "is_finite (snd H)"
    and rest: "list_all (\<lambda>(H, y). is_finite (fst H) \<and> is_finite (snd H)) rest"
    by auto
  obtain m P where corr: "filter_correct H (observation_cov k) (initial_state_mean k)
       (initial_state_cov k) y = Inr (m, P)" and fin: "mat2_finite P"
    using filter_correct_finite [OF H assms(4,5)] by blast
  obtain r where "filter_loop k m P rest = Inr r"
    using filter_loop_succeeds [OF assms(1-4) rest fin] by blast
  then show ?thesis
    by (simp add: kf_filter_def Cons x corr)
qed

lemma initialize_True:
  assumes "initialize s price_a price_b = (True, s')"
  shows "length price_a = length price_b" "50 \<le> length price_a" "is_initialized s'"
    "histories s' (length price_a)"
proof -
  let ?H = "map (\<lambda>b. (Fin 1, b)) (map flog price_b)"
  let ?k = "KalmanFilter s ?H"
  from assms show len: "length price_a = length price_b" and "50 \<le> length price_a"
    by (auto simp: initialize_def Let_def split: if_splits)
  from assms show "is_initialized s'"
    by (auto simp: initialize_def Let_def split: if_splits sum.splits prod.splits)
  from assms len obtain ms Ps s3 where
    filt: "kf_filter ?k (map flog price_a) = Inr (ms, Ps)"
    and calc: "calculate_spreads_and_z_scores
          (s\<lparr>kf := Some ?k, state_means := Some ms, state_covariances := Some Ps\<rparr>)
          (map flog price_a) ?H = Inr s3"
    and s': "s' = s3\<lparr>hedge_ratios := Some (map snd ms), is_initialized := True\<rparr>"
    by (auto simp: initialize_def Let_def split: if_splits sum.splits prod.splits)
  have "length (observation_matrices ?k) = length price_a"
    using len by (simp add: KalmanFilter_def)
  with kf_filter_length [OF filt]
  have lens: "length ms = length price_a" "length Ps = length price_a"
    by simp_all
  from calc lens len s' show "histories s' (length price_a)"
    by (auto simp: calculate_spreads_and_z_scores_def stored_def Let_def histories_def)
qed

lemma initialize_succeeds:
  assumes "is_finite (observation_covariance s)" "is_finite (transition_covariance s)"
    "is_finite (initial_state_covariance s)"
    "length price_a = length price_b" "50 \<le> length price_a" "list_all positive price_b"
  shows "fst (initialize s price_a price_b) = True"
proof -
  let ?k = "KalmanFilter s (map (\<lambda>b. (Fin 1, b)) (map flog price_b))"
  have "mat2_finite (initial_state_cov ?k)"
    using assms(3) by (auto simp: KalmanFilter_def eye2_times_def is_finite_iff)
  moreover have "list_all (\<lambda>H. is_finite (fst H) \<and> is_finite (snd H)) (observation_matrices ?k)"
    using assms(6) by (auto simp: KalmanFilter_def list_all_iff positive_iff)
  ultimately obtain ms Ps where "kf_filter ?k (map flog price_a) = Inr (ms, Ps)"
    using kf_filter_succeeds [of ?k "transition_covariance s" "map flog price_a"] assms(1,2)
    by (auto simp: KalmanFilter_def)
  then show ?thesis
    using assms(4,5)
    by (simp add: initialize_def Let_def calculate_spreads_and_z_scores_def stored_def)
qed

lemma default_filter_finite:
  "is_finite (observation_covariance default_filter)"
  "is_finite (transition_covariance default_filter)"
  "is_finite (initial_state_covariance default_filter)"
  by (simp_all add: default_filter_def)

lemma rising_ok:
  "length rising_a = 50" "length rising_b = 50" "list_all positive rising_b"
  by (simp_all add: rising_a_def rising_b_def list_all_iff)

lemma flat_ok: "length flat_prices = 50" "list_all positive flat_prices"
  by (simp_all add: flat_prices_def list_all_iff)

lemma initialize_rising: "fst (initialize default_filter rising_a rising_b) = True"
  by (rule initialize_succeeds) (simp_all add: default_filter_finite rising_ok)

lemma last_known_histories:
  assumes "histories s n" "0 < n"
  shows "\<exists>hr zs sp. hedge_ratios s = Some hr \<and> z_scores s = Some zs \<and> spreads s = Some sp
           \<and> length hr = n \<and> length zs = n \<and> length sp = n
           \<and> last_known s = Inr (last hr, last zs, last sp)"
proof -
  from assms(1) obtain ms :: "vec2 list" and sp zs where
    f: "hedge_ratios s = Some (map snd ms)" "z_scores s = Some zs" "spreads s = Some sp"
    and l: "length ms = n" "length zs = n" "length sp = n"
    unfolding histories_def by blast
  from l assms(2) have "map snd ms \<noteq> []" "zs \<noteq> []" "sp \<noteq> []" by auto
  then have "last_known s = Inr (last (map snd ms), last zs, last sp)"
    using f by (auto simp: last_known_def iloc_last_def split: list.splits)
  with f l show ?thesis by simp
qed

section \<open>The stored histories and the online update\<close>

text \<open>
  Claim C1. The claim says that after a successful \<open>initialize\<close> on \<open>N\<close> points and \<open>K\<close>
  calls of \<open>update\<close> the history of hedge ratios, spreads and z-scores has \<open>N + K\<close>
  entries. The code does not do that: \<open>update\<close> appends to none of the three series (its
  \<open>try\<close> block raises before line 172, and no line of it assigns \<open>hedge_ratios\<close>,
  \<open>spreads\<close> or \<open>z_scores\<close>), so each of them keeps its \<open>N\<close> entries whatever the
  number of updates.
\<close>

theorem history_length_after_updates:
  assumes "initialize s0 price_a price_b = (True, s)"
  shows "\<exists>hr zs sp. hedge_ratios (updates s ticks) = Some hr
           \<and> z_scores (updates s ticks) = Some zs \<and> spreads (updates s ticks) = Some sp
           \<and> length hr = length price_a \<and> length zs = length price_a
           \<and> length sp = length price_a"
  using initialize_True(4) [OF assms] by (auto simp: updates_same histories_def)

theorem history_length_after_updates_witness:
  "fst (initialize default_filter rising_a rising_b) = True \<and>
   (\<exists>hr zs sp.
      hedge_ratios (updates (snd (initialize default_filter rising_a rising_b)) [(Fin 105, Fin 52)])
        = Some hr
      \<and> z_scores (updates (snd (initialize default_filter rising_a rising_b)) [(Fin 105, Fin 52)])
        = Some zs
      \<and> spreads (updates (snd (initialize default_filter rising_a rising_b)) [(Fin 105, Fin 52)])
        = Some sp
      \<and> length hr = 50 \<and> length zs = 50 \<and> length sp = 50)"
proof -
  have "initialize default_filter rising_a rising_b
          = (True, snd (initialize default_filter rising_a rising_b))"
    using initialize_rising by (simp add: prod_eq_iff)
  from history_length_after_updates [OF this, of "[(Fin 105, Fin 52)]"] initialize_rising
  show ?thesis by (simp add: rising_ok)
qed

lemma nan_absorbs [simp]:
  "fadd x NaN = NaN" "fmul x NaN = NaN" "fsub NaN x = NaN" "fsub x NaN = NaN"
  by (cases x; simp add: fsub_def)+

lemma filter_correct_nan_observation:
  "filter_correct H R m P NaN = Inr (m', P') \<Longrightarrow> m' = (NaN, NaN)"
  by (auto simp: filter_correct_def Let_def ebind_def vec2_add_def vec2_scale_def
      split: sum.splits)

lemma kf_filter_nan_first:
  assumes "kf_filter k (NaN # ys) = Inr (ms, Ps)" "observation_matrices k \<noteq> []"
  shows "\<exists>rest. ms = (NaN, NaN) # rest"
proof -
  from assms(2) obtain H Hs where "observation_matrices k = H # Hs"
    by (cases "observation_matrices k") auto
  with assms(1) show ?thesis
    by (auto simp: kf_filter_def ebind_def split: sum.splits prod.splits
        dest: filter_correct_nan_observation)
qed

section \<open>Rejected and accepted initializations\<close>

text \<open>
  Claim C4, as amended. \<open>initialize\<close> reports failure and leaves the estimator
  uninitialized whenever the two series differ in length or hold fewer than fifty points
  (the code raises \<open>ValueError\<close> and catches it itself). The claim adds that no
  initialization succeeds when the state trajectory holds a non-finite value; the code
  makes no such check, as the counterexample after the theorem shows.
\<close>

theorem initialize_rejects_bad_lengths:
  "length price_a \<noteq> length price_b \<or> length price_a < 50 \<Longrightarrow>
     fst (initialize s price_a price_b) = False
     \<and> \<not> is_initialized (snd (initialize s price_a price_b))"
  by (auto simp: initialize_def)

theorem initialize_rejects_bad_lengths_witness:
  "length (take 10 rising_a) < 50 \<and>
   fst (initialize default_filter (take 10 rising_a) (take 10 rising_b)) = False \<and>
   \<not> is_initialized (snd (initialize default_filter (take 10 rising_a) (take 10 rising_b))) \<and>
   length rising_a \<noteq> length (rising_b @ [Fin 55]) \<and>
   fst (initialize default_filter rising_a (rising_b @ [Fin 55])) = False \<and>
   \<not> is_initialized (snd (initialize default_filter rising_a (rising_b @ [Fin 55])))"
  using initialize_rejects_bad_lengths [of "take 10 rising_a" "take 10 rising_b" default_filter]
    initialize_rejects_bad_lengths [of rising_a "rising_b @ [Fin 55]" default_filter]
  by (simp add: rising_ok)

text \<open>The counterexample to claim C4 as stated: with a missing first value of
  \<open>price_a\<close>, fifty points on each side, \<open>initialize\<close> succeeds and the first state mean is
  \<open>(NaN, NaN)\<close>.\<close>

theorem initialize_accepts_non_finite_trajectory:
  "length gap_prices = length flat_prices \<and> 50 \<le> length gap_prices \<and>
   fst (initialize default_filter gap_prices flat_prices) = True \<and>
   is_initialized (snd (initialize default_filter gap_prices flat_prices)) \<and>
   (\<exists>rest. state_means (snd (initialize default_filter gap_prices flat_prices))
             = Some ((NaN, NaN) # rest)) \<and>
   \<not> is_finite NaN"
proof -
  let ?s = "snd (initialize default_filter gap_prices flat_prices)"
  let ?k = "KalmanFilter default_filter (map (\<lambda>b. (Fin 1, b)) (map flog flat_prices))"
  have ok: "fst (initialize default_filter gap_prices flat_prices) = True"
    by (rule initialize_succeeds)
      (simp_all add: default_filter_finite flat_ok gap_prices_def)
  then have init: "initialize default_filter gap_prices flat_prices = (True, ?s)"
    by (simp add: prod_eq_iff)
  from initialize_True(3,4) [OF init] obtain ms where ms: "state_means ?s = Some ms"
    and "is_initialized ?s"
    unfolding histories_def by blast
  from init ms obtain Ps where "kf_filter ?k (map flog gap_prices) = Inr (ms, Ps)"
    by (auto simp: initialize_def Let_def calculate_spreads_and_z_scores_def stored_def
        split: if_splits sum.splits prod.splits)
  then have "kf_filter ?k (NaN # map flog (replicate 49 (Fin 1))) = Inr (ms, Ps)"
    by (simp add: gap_prices_def)
  moreover have "observation_matrices ?k \<noteq> []"
    by (simp add: KalmanFilter_def flat_prices_def)
  ultimately obtain rest where "ms = (NaN, NaN) # rest"
    using kf_filter_nan_first by blast
  with ms ok \<open>is_initialized ?s\<close> show ?thesis
    by (simp add: flat_ok gap_prices_def)
qed

section \<open>The filter on flat prices\<close>

lemma flat_correct:
  assumes "a + r \<noteq> 0"
  shows "filter_correct (Fin 1, Fin 0) (Fin r) (Fin 0, Fin 0) (Fin a, Fin 0, Fin 0, Fin d) (Fin 0)
           = Inr ((Fin 0, Fin 0), (Fin (a * r / (a + r)), Fin 0, Fin 0, Fin d))"
proof -
  have "a - a * (1 / (a + r)) * a = a * r / (a + r)"
    using assms by (simp add: field_simps)
  then show ?thesis
    using assms
    by (simp add: filter_correct_def dot2_def linalg_pinv_def Let_def vec2_scale_def
        vec2_add_def outer2_def fsub_def)
qed

lemma flat_predict:
  "filter_predict eye2 (eye2_times (Fin q)) (Fin 0, Fin 0) (Fin a, Fin 0, Fin 0, Fin d)
     = ((Fin 0, Fin 0), (Fin (a + q), Fin 0, Fin 0, Fin (d + q)))"
  by (simp add: filter_predict_def eye2_def eye2_times_def dot2_def)

lemma flat_loop:
  assumes k: "transition_matrices k = eye2" "transition_cov k = eye2_times (Fin q)"
    "observation_cov k = Fin r" and r: "0 < r" and q: "0 \<le> q"
  shows "0 < a \<Longrightarrow> \<exists>res. filter_loop k (Fin 0, Fin 0) (Fin a, Fin 0, Fin 0, Fin d)
                     (replicate n ((Fin 1, Fin 0), Fin 0)) = Inr res
            \<and> length res = n
            \<and> (\<forall>i<n. \<exists>x. 0 < x \<and> x < r \<and> res ! i = flat_entry x (d + real (Suc i) * q))"
proof (induction n arbitrary: a d)
  case 0
  then show ?case by simp
next
  case (Suc n)
  let ?a = "(a + q) * r / (a + q + r)"
  have pos: "0 < a + q" "0 < a + q + r" using Suc.prems r q by auto
  have a': "0 < ?a" "?a < r"
  proof -
    show "0 < ?a" using pos r by simp
    have "(a + q) * r < (a + q + r) * r" using pos r by simp
    then show "?a < r" using pos by (simp add: pos_divide_less_eq mult.commute)
  qed
  from Suc.IH [OF a'(1), of "d + q"] obtain res where
    loop: "filter_loop k (Fin 0, Fin 0) (Fin ?a, Fin 0, Fin 0, Fin (d + q))
             (replicate n ((Fin 1, Fin 0), Fin 0)) = Inr res"
    and len: "length res = n"
    and each: "\<And>i. i < n \<Longrightarrow> \<exists>x. 0 < x \<and> x < r \<and> res ! i = flat_entry x (d + q + real (Suc i) * q)"
    by blast
  have step: "filter_loop k (Fin 0, Fin 0) (Fin a, Fin 0, Fin 0, Fin d)
                (replicate (Suc n) ((Fin 1, Fin 0), Fin 0))
              = Inr (flat_entry ?a (d + q) # res)"
    using pos flat_correct [of "a + q" r "d + q"]
    by (simp add: k flat_predict loop flat_entry_def)
  have "\<exists>x. 0 < x \<and> x < r \<and> (flat_entry ?a (d + q) # res) ! i = flat_entry x (d + real (Suc i) * q)"
    if "i < Suc n" for i
  proof (cases i)
    case 0
    with a' show ?thesis by auto
  next
    case (Suc j)
    with that have "j < n" by simp
    from each [OF this] obtain x where x: "0 < x" "x < r"
      "res ! j = flat_entry x (d + q + real (Suc j) * q)" by blast
    have "d + q + real (Suc j) * q = d + real (Suc (Suc j)) * q"
      by (simp add: algebra_simps)
    with x(3) have "res ! j = flat_entry x (d + real (Suc (Suc j)) * q)"
      by (simp only:)
    then have "(flat_entry ?a (d + q) # res) ! i = flat_entry x (d + real (Suc i) * q)"
      unfolding Suc by (simp only: nth_Cons_Suc)
    with x(1,2) show ?thesis by blast
  qed
  with step len show ?case by simp
qed


lemma map_const: "(\<And>x. x \<in> set xs \<Longrightarrow> f x = c) \<Longrightarrow> map f xs = replicate (length xs) c"
  by (induction xs) auto

lemma kf_filter_flat:
  assumes "flat_config s r q c"
  shows "\<exists>res. kf_filter (KalmanFilter s (replicate (Suc n) (Fin 1, Fin 0)))
                 (replicate (Suc n) (Fin 0)) = Inr (map fst res, map snd res)
            \<and> length res = Suc n
            \<and> (\<forall>e\<in>set res. \<exists>x d. 0 < x \<and> e = flat_entry x d)
            \<and> (0 < n \<longrightarrow> (\<exists>x. 0 < x \<and> x < r \<and> last res = flat_entry x (c + real n * q)))"
proof -
  let ?k = "KalmanFilter s (replicate (Suc n) (Fin 1, Fin 0))"
  let ?a = "c * r / (c + r)"
  from assms have cfg: "observation_covariance s = Fin r" "transition_covariance s = Fin q"
    "initial_state_covariance s = Fin c" and r: "0 < r" and q: "0 \<le> q" and c: "c + r \<noteq> 0"
    and a: "0 < ?a"
    by (simp_all add: flat_config_def)
  have k: "transition_matrices ?k = eye2" "transition_cov ?k = eye2_times (Fin q)"
    "observation_cov ?k = Fin r"
    by (simp_all add: KalmanFilter_def cfg)
  from flat_loop [OF k r q a, of c n] obtain rest where
    loop: "filter_loop ?k (Fin 0, Fin 0) (Fin ?a, Fin 0, Fin 0, Fin c)
             (replicate n ((Fin 1, Fin 0), Fin 0)) = Inr rest"
    and len: "length rest = n"
    and each: "\<And>i. i < n \<Longrightarrow> \<exists>x. 0 < x \<and> x < r \<and> rest ! i = flat_entry x (c + real (Suc i) * q)"
    by blast
  let ?res = "flat_entry ?a c # rest"
  have "kf_filter ?k (replicate (Suc n) (Fin 0)) = Inr (map fst ?res, map snd ?res)"
    using flat_correct [OF c, of c] loop
    by (simp add: kf_filter_def KalmanFilter_def cfg eye2_times_def flat_entry_def)
  moreover have "length ?res = Suc n" using len by simp
  moreover have "\<exists>x d. 0 < x \<and> e = flat_entry x d" if "e \<in> set ?res" for e
  proof (cases "e = flat_entry ?a c")
    case True
    with a show ?thesis by blast
  next
    case False
    with that obtain i where "i < n" "e = rest ! i"
      using len by (auto simp: in_set_conv_nth)
    with each [of i] show ?thesis by blast
  qed
  moreover have "\<exists>x. 0 < x \<and> x < r \<and> last ?res = flat_entry x (c + real n * q)" if "0 < n"
  proof -
    from that len have "rest \<noteq> []" by auto
    then have "last ?res = rest ! (n - 1)"
      using len by (simp add: last_conv_nth)
    moreover from that have "n - 1 < n" "Suc (n - 1) = n" by simp_all
    ultimately show ?thesis using each [of "n - 1"] by simp
  qed
  ultimately show ?thesis by blast
qed


lemma flat_forecast_z:
  assumes "0 < x"
  shows "fdiv (Fin 0) (fsqrt (dot2 (Fin 1, Fin 0) (mat2_vec (snd (flat_entry x d)) (Fin 1, Fin 0))))
           = Fin 0"
  using assms by (simp add: flat_entry_def dot2_def)

lemma initialize_flat:
  assumes "flat_config s r q c"
  shows "\<exists>covs x. initialize s flat_prices flat_prices =
            (True, s\<lparr> kf := Some (KalmanFilter s (replicate 50 (Fin 1, Fin 0))),
                      state_means := Some (replicate 50 (Fin 0, Fin 0)),
                      state_covariances := Some covs,
                      spreads := Some (replicate 50 (Fin 0)),
                      z_scores := Some (replicate 50 (Fin 0)),
                      hedge_ratios := Some (replicate 50 (Fin 0)),
                      is_initialized := True \<rparr>)
          \<and> length covs = 50 \<and> last covs = (Fin x, Fin 0, Fin 0, Fin (c + 49 * q))
          \<and> 0 < x \<and> x < r"
proof -
  from kf_filter_flat [OF assms, of 49] obtain res x where
    filt: "kf_filter (KalmanFilter s (replicate 50 (Fin 1, Fin 0))) (replicate 50 (Fin 0))
             = Inr (map fst res, map snd res)"
    and len: "length res = 50"
    and each: "\<And>e. e \<in> set res \<Longrightarrow> \<exists>x d. 0 < x \<and> e = flat_entry x d"
    and x: "0 < x" "x < r" "last res = flat_entry x (c + 49 * q)"
    by auto
  have means: "map fst res = replicate 50 (Fin 0, Fin 0)"
    using map_const [of res fst "(Fin 0, Fin 0)"] each len by (fastforce simp: flat_entry_def)
  have zs: "map2 (\<lambda>x v. fdiv x (fsqrt v)) (replicate 50 (Fin 0))
              (map2 (\<lambda>H P. dot2 H (mat2_vec P H)) (replicate 50 (Fin 1, Fin 0)) (map snd res))
            = replicate 50 (Fin 0)"
  proof (rule nth_equalityI)
    show "length (map2 (\<lambda>x v. fdiv x (fsqrt v)) (replicate 50 (Fin 0))
              (map2 (\<lambda>H P. dot2 H (mat2_vec P H)) (replicate 50 (Fin 1, Fin 0)) (map snd res)))
          = length (replicate 50 (Fin 0 :: fl))"
      using len by simp
  next
    fix i
    assume "i < length (map2 (\<lambda>x v. fdiv x (fsqrt v)) (replicate 50 (Fin 0))
              (map2 (\<lambda>H P. dot2 H (mat2_vec P H)) (replicate 50 (Fin 1, Fin 0)) (map snd res)))"
    then have i: "i < 50" by simp
    with len have "res ! i \<in> set res" by simp
    from each [OF this] obtain y d where "0 < y" "res ! i = flat_entry y d" by blast
    with flat_forecast_z [of y d] i len
    show "map2 (\<lambda>x v. fdiv x (fsqrt v)) (replicate 50 (Fin 0))
              (map2 (\<lambda>H P. dot2 H (mat2_vec P H)) (replicate 50 (Fin 1, Fin 0)) (map snd res)) ! i
          = replicate 50 (Fin 0) ! i"
      by simp
  qed
  have "last (map snd res) = (Fin x, Fin 0, Fin 0, Fin (c + 49 * q))"
    using x(3) len by (cases res rule: rev_cases) (auto simp: flat_entry_def)
  moreover have "initialize s flat_prices flat_prices =
            (True, s\<lparr> kf := Some (KalmanFilter s (replicate 50 (Fin 1, Fin 0))),
                      state_means := Some (replicate 50 (Fin 0, Fin 0)),
                      state_covariances := Some (map snd res),
                      spreads := Some (replicate 50 (Fin 0)),
                      z_scores := Some (replicate 50 (Fin 0)),
                      hedge_ratios := Some (replicate 50 (Fin 0)),
                      is_initialized := True \<rparr>)"
    using filt zs
    by (simp add: initialize_def flat_prices_def Let_def means
        calculate_spreads_and_z_scores_def stored_def dot2_def fsub_def)
  ultimately show ?thesis
    using len x(1,2) by auto
qed

section \<open>Symmetric positive-semidefinite covariances\<close>

lemma psd_quadratic_form:
  fixes a b d :: real
  assumes "0 \<le> a" "0 \<le> d" "b * b \<le> a * d"
  shows "0 \<le> a * (x * x) + 2 * b * (x * y) + d * (y * y)"
proof (cases "a = 0")
  case True
  with assms(3) have "b * b \<le> 0" by simp
  moreover have "0 \<le> b * b" by simp
  ultimately have "b * b = 0" by (rule order_antisym)
  then have "b = 0" by simp
  with True assms(2) show ?thesis by simp
next
  case False
  with assms(1) have a: "0 < a" by simp
  have "a * (a * (x * x) + 2 * b * (x * y) + d * (y * y))
          = (a * x + b * y) * (a * x + b * y) + (a * d - b * b) * (y * y)"
    by (simp add: algebra_simps)
  also have "\<dots> \<ge> 0" using assms(3) by (simp add: zero_le_mult_iff)
  finally have "0 \<le> a * (a * (x * x) + 2 * b * (x * y) + d * (y * y))" .
  with a show ?thesis by (simp add: zero_le_mult_iff)
qed

lemma correct_step_psd:
  fixes a b d \<beta> r :: real
  assumes psd: "0 \<le> a" "0 \<le> d" "b * b \<le> a * d" and r: "0 < r"
  defines "u \<equiv> a + b * \<beta>" and "v \<equiv> b + d * \<beta>"
  defines "s \<equiv> u + \<beta> * v + r"
  shows "0 < s" "0 \<le> a - u * u / s" "0 \<le> d - v * v / s"
    "(b - u * v / s) * (b - u * v / s) \<le> (a - u * u / s) * (d - v * v / s)"
proof -
  have q: "0 \<le> a * (1 * 1) + 2 * b * (1 * \<beta>) + d * (\<beta> * \<beta>)"
    by (rule psd_quadratic_form [OF psd])
  have s_eq: "s = a + 2 * b * \<beta> + d * (\<beta> * \<beta>) + r"
    by (simp add: s_def u_def v_def algebra_simps)
  with q r show s: "0 < s" by simp
  have det: "0 \<le> a * d - b * b" using psd(3) by simp
  have "a * s - u * u = (a * d - b * b) * (\<beta> * \<beta>) + a * r"
    by (simp add: s_eq u_def algebra_simps)
  moreover have "0 \<le> (a * d - b * b) * (\<beta> * \<beta>) + a * r"
    using det psd(1) r by (simp add: zero_le_mult_iff)
  ultimately have "u * u \<le> a * s" by simp
  then have "u * u / s \<le> a" using s by (simp add: pos_divide_le_eq)
  then show "0 \<le> a - u * u / s" by simp
  have "d * s - v * v = (a * d - b * b) + d * r"
    by (simp add: s_eq v_def algebra_simps)
  moreover have "0 \<le> (a * d - b * b) + d * r"
    using det psd(2) r by (simp add: zero_le_mult_iff)
  ultimately have "v * v \<le> d * s" by simp
  then have "v * v / s \<le> d" using s by (simp add: pos_divide_le_eq)
  then show "0 \<le> d - v * v / s" by simp
  have key: "a * (v * v) + d * (u * u) - 2 * b * (u * v) = (a * d - b * b) * (s - r)"
    by (simp add: s_eq u_def v_def algebra_simps)
  have "(a - u * u / s) * (d - v * v / s) - (b - u * v / s) * (b - u * v / s)
          = (a * d - b * b) - (a * (v * v) + d * (u * u) - 2 * b * (u * v)) / s"
    using s by (simp add: field_simps)
  also have "\<dots> = (a * d - b * b) - (a * d - b * b) * (s - r) / s"
    by (simp only: key)
  also have "\<dots> = (a * d - b * b) * (r / s)"
    using s by (simp add: field_simps)
  also have "\<dots> \<ge> 0" using det r s by (simp add: zero_le_mult_iff)
  finally show "(b - u * v / s) * (b - u * v / s) \<le> (a - u * u / s) * (d - v * v / s)"
    by simp
qed


lemma symmetric_psd_iff:
  "symmetric_psd P \<longleftrightarrow>
     (\<exists>a b d. P = (Fin a, Fin b, Fin b, Fin d) \<and> 0 \<le> a \<and> 0 \<le> d \<and> b * b \<le> a * d)"
proof (cases P)
  case (fields p q r t)
  then show ?thesis
    by (cases p; cases q; cases r; cases t) auto
qed

lemma filter_correct_psd:
  assumes "symmetric_psd P" "0 < r"
  shows "\<exists>m' P'. filter_correct (Fin 1, Fin \<beta>) (Fin r) m P y = Inr (m', P') \<and> symmetric_psd P'"
proof -
  from assms(1) obtain a b d where P: "P = (Fin a, Fin b, Fin b, Fin d)"
    and psd: "0 \<le> a" "0 \<le> d" "b * b \<le> a * d"
    by (auto simp: symmetric_psd_iff)
  define u where "u = a + b * \<beta>"
  define v where "v = b + d * \<beta>"
  define s where "s = u + \<beta> * v + r"
  have step: "0 < s" "0 \<le> a - u * u / s" "0 \<le> d - v * v / s"
    "(b - u * v / s) * (b - u * v / s) \<le> (a - u * u / s) * (d - v * v / s)"
    unfolding s_def u_def v_def by (rule correct_step_psd [OF psd assms(2)])+
  have ph: "mat2_vec P (Fin 1, Fin \<beta>) = (Fin u, Fin v)"
    by (simp add: P dot2_def u_def v_def)
  have hp: "vec_mat2 (Fin 1, Fin \<beta>) P = (Fin u, Fin v)"
    by (simp add: P dot2_def u_def v_def algebra_simps)
  have S: "fadd (dot2 (Fin 1, Fin \<beta>) (Fin u, Fin v)) (Fin r) = Fin s"
    by (simp add: dot2_def s_def)
  have pinv: "linalg_pinv (Fin s) = Inr (Fin (1 / s))"
    using step(1) by (simp add: linalg_pinv_def)
  have gain: "mat2_vec P (vec2_scale (Fin 1, Fin \<beta>) (Fin (1 / s))) = (Fin (u / s), Fin (v / s))"
    by (simp add: P dot2_def vec2_scale_def u_def v_def algebra_simps add_divide_distrib)
  have "mat2_sub P (outer2 (Fin (u / s), Fin (v / s)) (Fin u, Fin v))
          = (Fin (a - u * u / s), Fin (b - u * v / s), Fin (b - u * v / s), Fin (d - v * v / s))"
    by (simp add: P outer2_def fsub_def)
  moreover have "symmetric_psd (Fin (a - u * u / s), Fin (b - u * v / s), Fin (b - u * v / s),
                   Fin (d - v * v / s))"
    using step by simp
  ultimately show ?thesis
    by (simp add: filter_correct_def ph hp S pinv gain Let_def)
qed

lemma filter_predict_psd:
  assumes "symmetric_psd P" "0 \<le> q"
  shows "symmetric_psd (snd (filter_predict eye2 (eye2_times (Fin q)) m P))"
proof -
  from assms(1) obtain a b d where P: "P = (Fin a, Fin b, Fin b, Fin d)"
    and psd: "0 \<le> a" "0 \<le> d" "b * b \<le> a * d"
    by (auto simp: symmetric_psd_iff)
  have "a * d \<le> (a + q) * (d + q)"
    using psd(1,2) assms(2) by (simp add: mult_mono)
  with psd assms(2) show ?thesis
    by (simp add: filter_predict_def eye2_def eye2_times_def P dot2_def)
qed


lemma filter_loop_psd:
  assumes k: "transition_matrices k = eye2" "transition_cov k = eye2_times (Fin q)"
    "observation_cov k = Fin r" and r: "0 < r" and q: "0 \<le> q"
  shows "list_all (\<lambda>(H, y). \<exists>\<beta>. H = (Fin 1, Fin \<beta>)) xs \<Longrightarrow> symmetric_psd P
      \<Longrightarrow> \<exists>res. filter_loop k m P xs = Inr res \<and> list_all (\<lambda>e. symmetric_psd (snd e)) res"
proof (induction xs arbitrary: m P)
  case Nil
  then show ?case by simp
next
  case (Cons x xs)
  from Cons.prems(1) obtain \<beta> y where x: "x = ((Fin 1, Fin \<beta>), y)"
    by (cases x) auto
  obtain pm pP where pred: "filter_predict eye2 (eye2_times (Fin q)) m P = (pm, pP)"
    by (cases "filter_predict eye2 (eye2_times (Fin q)) m P")
  have "symmetric_psd pP"
    using filter_predict_psd [OF Cons.prems(2) q, of m] pred by simp
  from filter_correct_psd [OF this r, of \<beta> pm y] obtain m' P' where
    corr: "filter_correct (Fin 1, Fin \<beta>) (Fin r) pm pP y = Inr (m', P')"
    and psd: "symmetric_psd P'"
    by blast
  from Cons.IH [OF _ psd, of m'] Cons.prems(1) obtain res where
    "filter_loop k m' P' xs = Inr res" "list_all (\<lambda>e. symmetric_psd (snd e)) res"
    by auto
  with psd show ?case
    by (simp add: x k pred corr)
qed

lemma kf_filter_psd:
  assumes cfg: "observation_covariance s = Fin r" "transition_covariance s = Fin q"
    "initial_state_covariance s = Fin c" and r: "0 < r" and q: "0 \<le> q" and c: "0 \<le> c"
    and H: "list_all (\<lambda>H. \<exists>\<beta>. H = (Fin 1, Fin \<beta>)) Hs"
    and res: "kf_filter (KalmanFilter s Hs) ys = Inr (ms, Ps)"
  shows "list_all symmetric_psd Ps"
proof (cases "zip Hs ys")
  case Nil
  with res have "Ps = []"
    unfolding kf_filter_def by (simp add: KalmanFilter_def)
  then show ?thesis by simp
next
  case (Cons x rest)
  let ?k = "KalmanFilter s Hs"
  have k: "transition_matrices ?k = eye2" "transition_cov ?k = eye2_times (Fin q)"
    "observation_cov ?k = Fin r"
    by (simp_all add: KalmanFilter_def cfg)
  have all: "list_all (\<lambda>(H, y). \<exists>\<beta>. H = (Fin 1, Fin \<beta>)) (zip Hs ys)"
    using H by (auto simp: list_all_iff dest: set_zip_leftD)
  with Cons obtain \<beta> y where x: "x = ((Fin 1, Fin \<beta>), y)"
    and rest: "list_all (\<lambda>(H, y). \<exists>\<beta>. H = (Fin 1, Fin \<beta>)) rest"
    by (cases x) auto
  have "symmetric_psd (eye2_times (Fin c))"
    using c by (simp add: eye2_times_def)
  from filter_correct_psd [OF this r, of \<beta> "(Fin 0, Fin 0)" y] obtain m P where
    corr: "filter_correct (Fin 1, Fin \<beta>) (Fin r) (Fin 0, Fin 0) (eye2_times (Fin c)) y = Inr (m, P)"
    and psd: "symmetric_psd P"
    by blast
  from filter_loop_psd [OF k r q rest psd, of m] obtain tl where
    loop: "filter_loop ?k m P rest = Inr tl" and tl: "list_all (\<lambda>e. symmetric_psd (snd e)) tl"
    by blast
  have "kf_filter ?k ys = Inr (m # map fst tl, P # map snd tl)"
    using Cons corr loop
    by (simp add: kf_filter_def x) (simp add: KalmanFilter_def cfg)
  with res have "Ps = P # map snd tl" by simp
  with psd tl show ?thesis by (simp add: list_all_iff)
qed

lemma initialize_psd:
  assumes cfg: "observation_covariance s0 = Fin r" "transition_covariance s0 = Fin q"
    "initial_state_covariance s0 = Fin c" and r: "0 < r" and q: "0 \<le> q" and c: "0 \<le> c"
    and pos: "list_all positive price_b"
    and init: "initialize s0 price_a price_b = (True, s)"
  shows "\<exists>covs. state_covariances s = Some covs \<and> length covs = length price_a
           \<and> list_all symmetric_psd covs"
proof -
  let ?H = "map (\<lambda>b. (Fin 1, b)) (map flog price_b)"
  from init obtain ms Ps where
    filt: "kf_filter (KalmanFilter s0 ?H) (map flog price_a) = Inr (ms, Ps)"
    and covs: "state_covariances s = Some Ps"
    by (auto simp: initialize_def Let_def calculate_spreads_and_z_scores_def stored_def
        split: if_splits sum.splits prod.splits)
  have "list_all (\<lambda>H. \<exists>\<beta>. H = (Fin 1, Fin \<beta>)) ?H"
    using pos by (auto simp: list_all_iff positive_iff)
  from kf_filter_psd [OF cfg r q c this filt] have "list_all symmetric_psd Ps" .
  moreover from initialize_True(4) [OF init] covs have "length Ps = length price_a"
    by (auto simp: histories_def)
  ultimately show ?thesis using covs by simp
qed

lemma symmetric_psd_quadratic_form:
  "symmetric_psd P \<longleftrightarrow>
     (\<exists>a b d. P = (Fin a, Fin b, Fin b, Fin d) \<and> (\<forall>x y. 0 \<le> quadratic_form a b b d x y))"
proof
  assume "symmetric_psd P"
  then obtain a b d where P: "P = (Fin a, Fin b, Fin b, Fin d)"
    and psd: "0 \<le> a" "0 \<le> d" "b * b \<le> a * d"
    by (auto simp: symmetric_psd_iff)
  have "0 \<le> quadratic_form a b b d x y" for x y
    using psd_quadratic_form [OF psd, of x y]
    by (simp add: quadratic_form_def algebra_simps)
  with P show "\<exists>a b d. P = (Fin a, Fin b, Fin b, Fin d) \<and> (\<forall>x y. 0 \<le> quadratic_form a b b d x y)"
    by blast
next
  assume "\<exists>a b d. P = (Fin a, Fin b, Fin b, Fin d) \<and> (\<forall>x y. 0 \<le> quadratic_form a b b d x y)"
  then obtain a b d where P: "P = (Fin a, Fin b, Fin b, Fin d)"
    and q: "\<And>x y. 0 \<le> quadratic_form a b b d x y"
    by blast
  from q [of 1 0] have a: "0 \<le> a" by (simp add: quadratic_form_def)
  from q [of 0 1] have d: "0 \<le> d" by (simp add: quadratic_form_def)
  have det: "b * b \<le> a * d"
  proof (cases "a = 0")
    case True
    have "b = 0"
    proof (rule ccontr)
      assume nz: "b \<noteq> 0"
      from q [of "- (d + 1) / (2 * b)" 1] True nz have "0 \<le> - (d + 1) + d"
        by (simp add: quadratic_form_def field_simps)
      then show False by simp
    qed
    with True show ?thesis by simp
  next
    case False
    with a have pos: "0 < a" by simp
    from q [of "- b" a] have "0 \<le> a * (a * d - b * b)"
      by (simp add: quadratic_form_def algebra_simps)
    with pos have "0 \<le> a * d - b * b" by (simp add: zero_le_mult_iff)
    then show ?thesis by simp
  qed
  from a d det show "symmetric_psd P" by (simp add: P)
qed

lemma default_flat_config: "flat_config default_filter (1 / 1000) (1 / 9999) 1"
  by (simp add: flat_config_def default_filter_def)

lemma negative_prior_flat_config:
  "flat_config negative_prior_filter (1 / 1000) (1 / 9999) (- 1)"
  by (simp add: flat_config_def negative_prior_filter_def default_filter_def)

lemma negative_prior_constructed:
  "PairsKalmanFilter (Fin (1 / 1000)) (Fin (1 / 10000)) (Fin (- 1)) = Inr negative_prior_filter"
  by (simp add: PairsKalmanFilter_def py_div_def fsub_def negative_prior_filter_def
      default_filter_def)

lemma constructed_config:
  assumes "PairsKalmanFilter (Fin r) (Fin dl) (Fin c) = Inr s" "0 < dl" "dl < 1"
  shows "observation_covariance s = Fin r" "transition_covariance s = Fin (dl / (1 - dl))"
    "initial_state_covariance s = Fin c" "0 \<le> dl / (1 - dl)"
  using assms
  by (auto simp: PairsKalmanFilter_def py_div_def fsub_def split: if_splits)

section \<open>What the online update returns\<close>

text \<open>
  Claim C2. The claim says that \<open>update\<close> returns as spread the innovation of the tick,
  the log of \<open>price_a\<close> minus the observation row applied to the predicted mean, and as
  z-score that spread over the root of the innovation variance. The code does not: its
  \<open>try\<close> block raises on every call, and the handler returns the last stored values,
  whatever the prices. After an initialization on fifty flat prices the stored spread is
  \<open>0\<close>; \<open>update(2.0, 1.0)\<close> and \<open>update(3.0, 7.0)\<close> both return \<open>(0, 0, 0)\<close>, while
  the innovation of the first is \<open>ln 2\<close>.
\<close>

theorem update_returns_stored_spread:
  "fst (initialize default_filter flat_prices flat_prices) = True \<and>
   update (snd (initialize default_filter flat_prices flat_prices)) (Fin 2) (Fin 1)
     = (Inr (Fin 0, Fin 0, Fin 0), snd (initialize default_filter flat_prices flat_prices)) \<and>
   update (snd (initialize default_filter flat_prices flat_prices)) (Fin 3) (Fin 7)
     = (Inr (Fin 0, Fin 0, Fin 0), snd (initialize default_filter flat_prices flat_prices)) \<and>
   innovation (snd (initialize default_filter flat_prices flat_prices)) (Fin 2) (Fin 1)
     = Inr (Fin (ln 2)) \<and>
   Fin (ln 2) \<noteq> Fin 0"
proof -
  let ?s = "snd (initialize default_filter flat_prices flat_prices)"
  from initialize_flat [OF default_flat_config] obtain covs where
    init: "initialize default_filter flat_prices flat_prices =
            (True, default_filter\<lparr> kf := Some (KalmanFilter default_filter (replicate 50 (Fin 1, Fin 0))),
                      state_means := Some (replicate 50 (Fin 0, Fin 0)),
                      state_covariances := Some covs,
                      spreads := Some (replicate 50 (Fin 0)),
                      z_scores := Some (replicate 50 (Fin 0)),
                      hedge_ratios := Some (replicate 50 (Fin 0)),
                      is_initialized := True \<rparr>)"
    by blast
  have lk: "last_known ?s = Inr (Fin 0, Fin 0, Fin 0)"
    by (simp add: init last_known_def iloc_last_def eval_nat_numeral)
  have up: "update ?s a b = (Inr (Fin 0, Fin 0, Fin 0), ?s)" for a b
    by (simp add: update_eq lk) (simp add: init)
  have inn: "innovation ?s (Fin 2) (Fin 1) = Inr (Fin (ln 2))"
    by (simp add: init innovation_def last_entry_def eval_nat_numeral dot2_def fsub_def)
  show ?thesis
    using up inn by (simp add: init)
qed


section \<open>The covariance after initialization and updates\<close>

text \<open>
  Claim C5, as amended. For an estimator built with a positive observation noise variance,
  \<open>0 < delta < 1\<close> and an initial state covariance that is not negative, and initialized
  with success on positive prices, every stored state covariance, and so the current one,
  is symmetric and positive-semidefinite, after the initialization and after any number of
  updates: its off-diagonal entries agree and its quadratic form is never negative.
\<close>

theorem covariance_symmetric_psd:
  assumes "0 < r" "0 < dl" "dl < 1" "0 \<le> c"
    and built: "PairsKalmanFilter (Fin r) (Fin dl) (Fin c) = Inr s0"
    and pos: "list_all positive price_b"
    and init: "initialize s0 price_a price_b = (True, s)"
  shows "\<exists>covs a b d. state_covariances (updates s ticks) = Some covs
           \<and> length covs = length price_a \<and> list_all symmetric_psd covs
           \<and> last covs = (Fin a, Fin b, Fin b, Fin d)
           \<and> (\<forall>x y. 0 \<le> quadratic_form a b b d x y)"
proof -
  note cfg = constructed_config [OF built assms(2,3)]
  from initialize_psd [OF cfg(1-3) assms(1) cfg(4) assms(4) pos init] obtain covs where
    covs: "state_covariances s = Some covs" "length covs = length price_a"
    "list_all symmetric_psd covs"
    by blast
  from initialize_True(2) [OF init] covs(2) have "covs \<noteq> []" by auto
  with covs(3) have "symmetric_psd (last covs)"
    by (simp add: list_all_iff)
  then obtain a b d where "last covs = (Fin a, Fin b, Fin b, Fin d)"
    "\<forall>x y. 0 \<le> quadratic_form a b b d x y"
    unfolding symmetric_psd_quadratic_form by blast
  with covs show ?thesis
    by (auto simp: updates_same)
qed

theorem covariance_symmetric_psd_witness:
  "PairsKalmanFilter (Fin (1 / 1000)) (Fin (1 / 10000)) (Fin 1) = Inr default_filter \<and>
   list_all positive rising_b \<and>
   fst (initialize default_filter rising_a rising_b) = True \<and>
   (\<exists>covs a b d.
      state_covariances (updates (snd (initialize default_filter rising_a rising_b))
        [(Fin 105, Fin 52)]) = Some covs
      \<and> length covs = 50 \<and> list_all symmetric_psd covs
      \<and> last covs = (Fin a, Fin b, Fin b, Fin d)
      \<and> (\<forall>x y. 0 \<le> quadratic_form a b b d x y))"
proof -
  have init: "initialize default_filter rising_a rising_b
          = (True, snd (initialize default_filter rising_a rising_b))"
    using initialize_rising by (simp add: prod_eq_iff)
  have "(0::real) < 1 / 1000" "(0::real) < 1 / 10000" "(1::real) / 10000 < 1" "(0::real) \<le> 1"
    by simp_all
  from covariance_symmetric_psd
    [OF this default_filter_constructed rising_ok(3) init, of "[(Fin 105, Fin 52)]"]
  show ?thesis
    using default_filter_constructed rising_ok initialize_rising by simp
qed

text \<open>The counterexample to claim C5 as stated, which does not restrict the initial state
  covariance: with \<open>initial_state_covariance = -1.0\<close>, the default noise parameters and
  fifty flat prices, \<open>initialize\<close> succeeds and the variance of the hedge ratio in the
  current covariance is \<open>-1 + 49 / 9999\<close>, which is negative.\<close>

theorem negative_prior_covariance_not_psd:
  "(0::real) < 1 / 1000 \<and> (0::real) < 1 / 10000 \<and> (1::real) / 10000 < 1 \<and>
   PairsKalmanFilter (Fin (1 / 1000)) (Fin (1 / 10000)) (Fin (- 1)) = Inr negative_prior_filter \<and>
   list_all positive flat_prices \<and>
   fst (initialize negative_prior_filter flat_prices flat_prices) = True \<and>
   is_initialized (snd (initialize negative_prior_filter flat_prices flat_prices)) \<and>
   (\<exists>covs a. state_covariances (snd (initialize negative_prior_filter flat_prices flat_prices))
                = Some covs
      \<and> last covs = (Fin a, Fin 0, Fin 0, Fin (- 1 + 49 * (1 / 9999)))
      \<and> quadratic_form a 0 0 (- 1 + 49 * (1 / 9999)) 0 1 < 0
      \<and> \<not> symmetric_psd (last covs))"
proof -
  from initialize_flat [OF negative_prior_flat_config] obtain covs a where
    init: "initialize negative_prior_filter flat_prices flat_prices =
            (True, negative_prior_filter\<lparr>
                      kf := Some (KalmanFilter negative_prior_filter (replicate 50 (Fin 1, Fin 0))),
                      state_means := Some (replicate 50 (Fin 0, Fin 0)),
                      state_covariances := Some covs,
                      spreads := Some (replicate 50 (Fin 0)),
                      z_scores := Some (replicate 50 (Fin 0)),
                      hedge_ratios := Some (replicate 50 (Fin 0)),
                      is_initialized := True \<rparr>)"
    and last: "last covs = (Fin a, Fin 0, Fin 0, Fin (- 1 + 49 * (1 / 9999)))"
    by blast
  have "quadratic_form a 0 0 (- 1 + 49 * (1 / 9999)) 0 1 < 0"
    by (simp add: quadratic_form_def)
  moreover have "\<not> symmetric_psd (last covs)"
    by (simp add: last)
  ultimately show ?thesis
    using last negative_prior_constructed flat_ok(2) by (simp add: init)
qed

section \<open>Finite hedge ratios and their variance\<close>

lemma foldl_fadd_Fin: "foldl fadd (Fin a) (map Fin rs) = Fin (a + sum_list rs)"
  by (induction rs arbitrary: a) (simp_all add: add.assoc)

lemma fsum_Fin: "fsum (map Fin rs) = Fin (sum_list rs)"
  by (simp add: fsum_def foldl_fadd_Fin)

lemma dropna_Fin: "dropna (map Fin rs) = map Fin rs"
  by (induction rs) (simp_all add: dropna_def)

lemma finite_list: "list_all is_finite xs \<Longrightarrow> \<exists>rs. xs = map Fin rs"
proof (induction xs)
  case Nil
  then show ?case by simp
next
  case (Cons x xs)
  then obtain a rs where "x = Fin a" "xs = map Fin rs"
    by (auto simp: is_finite_iff)
  then have "x # xs = map Fin (a # rs)" by simp
  then show ?case by (rule exI [of _ "a # rs"])
qed

lemma series_var_Fin:
  assumes "1 < length rs"
  shows "\<exists>v. series_var (map Fin rs) = Fin v \<and> 0 \<le> v"
proof -
  let ?n = "real (length rs)"
  let ?avg = "sum_list rs / ?n"
  let ?sq = "map (\<lambda>x. (?avg - x) * (?avg - x)) rs"
  have n: "?n \<noteq> 0" "real (length rs - 1) \<noteq> 0" "0 < real (length rs - 1)"
    using assms by auto
  have sq: "map (\<lambda>x. fmul (fsub (Fin ?avg) x) (fsub (Fin ?avg) x)) (map Fin rs) = map Fin ?sq"
    by (simp add: fsub_def)
  have "series_var (map Fin rs)
          = fdiv (fsum (map (\<lambda>x. fmul (fsub (Fin ?avg) x) (fsub (Fin ?avg) x)) (map Fin rs)))
              (Fin (real (length rs - 1)))"
    using assms n by (simp add: series_var_def dropna_Fin fsum_Fin Let_def)
  also have "\<dots> = Fin (sum_list ?sq / real (length rs - 1))"
    unfolding sq fsum_Fin using n by simp
  finally have "series_var (map Fin rs) = Fin (sum_list ?sq / real (length rs - 1))" .
  moreover have "0 \<le> sum_list ?sq"
    by (rule sum_list_nonneg) auto
  then have "0 \<le> sum_list ?sq / real (length rs - 1)"
    using n(3) by simp
  ultimately show ?thesis by blast
qed

lemma filter_correct_finite_mean:
  assumes "is_finite (fst H)" "is_finite (snd H)" "is_finite R" "mat2_finite P"
    "is_finite (fst m)" "is_finite (snd m)" "is_finite y"
  shows "\<exists>m' P'. filter_correct H R m P y = Inr (m', P') \<and> mat2_finite P'
           \<and> is_finite (fst m') \<and> is_finite (snd m')"
proof -
  obtain h0 h1 where H: "H = (Fin h0, Fin h1)"
    using assms(1,2) by (cases H) (auto simp: is_finite_iff)
  obtain r where R: "R = Fin r" using assms(3) by (auto simp: is_finite_iff)
  obtain a b c d where P: "P = (Fin a, Fin b, Fin c, Fin d)"
    using assms(4) by (auto simp: mat2_finite_iff)
  obtain m0 m1 where m: "m = (Fin m0, Fin m1)"
    using assms(5,6) by (cases m) (auto simp: is_finite_iff)
  obtain v where y: "y = Fin v" using assms(7) by (auto simp: is_finite_iff)
  show ?thesis
    by (simp add: filter_correct_def H R P m y dot2_def linalg_pinv_def Let_def vec2_scale_def
        vec2_add_def outer2_def fsub_def)
qed

lemma filter_predict_finite_mean:
  assumes "is_finite (fst m)" "is_finite (snd m)"
  shows "is_finite (fst (fst (filter_predict eye2 Q m P)))"
    "is_finite (snd (fst (filter_predict eye2 Q m P)))"
proof -
  obtain m0 m1 where m: "m = (Fin m0, Fin m1)"
    using assms by (cases m) (auto simp: is_finite_iff)
  show "is_finite (fst (fst (filter_predict eye2 Q m P)))"
    "is_finite (snd (fst (filter_predict eye2 Q m P)))"
    by (simp_all add: filter_predict_def eye2_def m dot2_def)
qed

lemma filter_loop_finite_means:
  assumes "transition_matrices k = eye2" "transition_cov k = eye2_times tc" "is_finite tc"
    "is_finite (observation_cov k)"
  shows "list_all finite_input xs \<Longrightarrow> mat2_finite P \<Longrightarrow> is_finite (fst m) \<Longrightarrow> is_finite (snd m)
      \<Longrightarrow> filter_loop k m P xs = Inr res \<Longrightarrow> list_all (\<lambda>e. is_finite (snd (fst e))) res"
proof (induction xs arbitrary: m P res)
  case Nil
  then show ?case by simp
next
  case (Cons x xs)
  obtain H y where x: "x = (H, y)" by (cases x)
  obtain pm pP where pred: "filter_predict eye2 (eye2_times tc) m P = (pm, pP)"
    by (cases "filter_predict eye2 (eye2_times tc) m P")
  have pP: "mat2_finite pP"
    using filter_predict_finite [OF Cons.prems(2) assms(3), of m] pred by simp
  have pm: "is_finite (fst pm)" "is_finite (snd pm)"
    using filter_predict_finite_mean [OF Cons.prems(3,4), of "eye2_times tc" P] pred by simp_all
  have Hy: "is_finite (fst H)" "is_finite (snd H)" "is_finite y"
    using Cons.prems(1) x by (auto simp: finite_input_def)
  from filter_correct_finite_mean [OF Hy(1,2) assms(4) pP pm Hy(3)] obtain m' P' where
    corr: "filter_correct H (observation_cov k) pm pP y = Inr (m', P')"
    and fin: "mat2_finite P'" "is_finite (fst m')" "is_finite (snd m')"
    by blast
  from Cons.prems(5) obtain r where loop: "filter_loop k m' P' xs = Inr r" and res: "res = (m', P') # r"
    by (auto simp: x assms(1,2) pred corr ebind_def split: sum.splits)
  from Cons.IH [OF _ fin loop] Cons.prems(1) have "list_all (\<lambda>e. is_finite (snd (fst e))) r"
    by simp
  with fin res show ?case by simp
qed

lemma kf_filter_finite_means:
  assumes k: "transition_matrices k = eye2" "transition_cov k = eye2_times tc" "is_finite tc"
    "is_finite (observation_cov k)" "mat2_finite (initial_state_cov k)"
    "is_finite (fst (initial_state_mean k))" "is_finite (snd (initial_state_mean k))"
    and inputs: "list_all finite_input (zip (observation_matrices k) ys)"
    and res: "kf_filter k ys = Inr (ms, Ps)"
  shows "list_all is_finite (map snd ms)"
proof (cases "zip (observation_matrices k) ys")
  case Nil
  with res have "ms = []" unfolding kf_filter_def by simp
  then show ?thesis by simp
next
  case (Cons x rest)
  obtain H y where x: "x = (H, y)" by (cases x)
  from inputs Cons x have Hy: "is_finite (fst H)" "is_finite (snd H)" "is_finite y"
    and rest: "list_all finite_input rest"
    by (auto simp: finite_input_def)
  from filter_correct_finite_mean [OF Hy(1,2) k(4,5,6,7) Hy(3)]
  obtain m P where corr: "filter_correct H (observation_cov k) (initial_state_mean k)
         (initial_state_cov k) y = Inr (m, P)"
    and mP: "mat2_finite P" "is_finite (fst m)" "is_finite (snd m)"
    by blast
  from res obtain r where loop: "filter_loop k m P rest = Inr r"
    and ms: "ms = m # map fst r"
    unfolding kf_filter_def Cons x by (auto simp: corr ebind_def split: sum.splits)
  from filter_loop_finite_means [OF k(1-4) rest mP loop]
  have "list_all (\<lambda>e. is_finite (snd (fst e))) r" .
  with mP ms show ?thesis by (simp add: list_all_iff)
qed

lemma initialize_finite_hedge_ratios:
  assumes fin: "is_finite (observation_covariance s0)" "is_finite (transition_covariance s0)"
    "is_finite (initial_state_covariance s0)"
    and pos: "list_all positive price_a" "list_all positive price_b"
    and init: "initialize s0 price_a price_b = (True, s)"
  shows "\<exists>hr. hedge_ratios s = Some hr \<and> length hr = length price_a \<and> list_all is_finite hr"
proof -
  define Hs where "Hs = map (\<lambda>b. (Fin 1, b)) (map flog price_b)"
  define ys where "ys = map flog price_a"
  from init obtain ms Ps where
    filt: "kf_filter (KalmanFilter s0 Hs) ys = Inr (ms, Ps)"
    and hr: "hedge_ratios s = Some (map snd ms)"
    unfolding Hs_def ys_def
    by (auto simp: initialize_def Let_def calculate_spreads_and_z_scores_def stored_def
        split: if_splits sum.splits prod.splits)
  have inputs: "list_all finite_input (zip Hs ys)"
  proof -
    have "finite_input x" if "x \<in> set (zip Hs ys)" for x
    proof -
      obtain H y where x: "x = (H, y)" by (cases x)
      with that have "H \<in> set Hs" "y \<in> set ys"
        by (auto dest: set_zip_leftD set_zip_rightD)
      with pos x show ?thesis
        unfolding Hs_def ys_def
        by (auto simp: list_all_iff finite_input_def positive_iff)
    qed
    then show ?thesis by (simp add: list_all_iff)
  qed
  have "list_all is_finite (map snd ms)"
  proof (rule kf_filter_finite_means [OF _ _ fin(2) _ _ _ _ _ filt])
    show "transition_matrices (KalmanFilter s0 Hs) = eye2"
      "transition_cov (KalmanFilter s0 Hs) = eye2_times (transition_covariance s0)"
      "is_finite (observation_cov (KalmanFilter s0 Hs))"
      "is_finite (fst (initial_state_mean (KalmanFilter s0 Hs)))"
      "is_finite (snd (initial_state_mean (KalmanFilter s0 Hs)))"
      using fin by (simp_all add: KalmanFilter_def)
    show "mat2_finite (initial_state_cov (KalmanFilter s0 Hs))"
      using fin(3) by (auto simp: KalmanFilter_def eye2_times_def is_finite_iff)
    show "list_all finite_input (zip (observation_matrices (KalmanFilter s0 Hs)) ys)"
      using inputs by (simp add: KalmanFilter_def)
  qed
  moreover from initialize_True(4) [OF init] hr have "length (map snd ms) = length price_a"
    unfolding histories_def by (metis length_map option.inject)
  ultimately show ?thesis using hr by blast
qed

section \<open>The confidence score\<close>

lemma py_max_Fin: "py_max (Fin a) (Fin b) = Fin (max a b)"
  by (simp add: py_max_def max_def)

lemma py_min_Fin: "py_min (Fin a) (Fin b) = Fin (min a b)"
  by (simp add: py_min_def min_def)

lemma state_confidence_Fin:
  "state_confidence (Fin tr) = Fin (max 0 (1 - tr / (1 / 10)))"
  by (simp add: state_confidence_def fsub_def py_max_Fin)

lemma stability_confidence_Fin:
  "stability_confidence (Fin var) = Fin (max 0 (1 - var / (1 / 100)))"
  by (simp add: stability_confidence_def fsub_def py_max_Fin)

lemma tail_length: "n \<le> length xs \<Longrightarrow> length (tail n xs) = n"
  by (simp add: tail_def)

lemma last_entry_Some: "xs \<noteq> [] \<Longrightarrow> last_entry (Some xs) = Inr (last xs)"
  by (cases xs) (simp_all add: last_entry_def)

lemma get_confidence_value:
  assumes "is_initialized s" "state_covariances s = Some covs" "covs \<noteq> []"
    "hedge_ratios s = Some hr" "np_trace (last covs) = Fin tr"
    "series_var (tail 20 hr) = Fin var"
  shows "get_confidence s
           = Fin (min 1 (max 0 ((max 0 (1 - tr / (1 / 10)) + max 0 (1 - var / (1 / 100))) / 2)))"
  using assms
  by (simp add: get_confidence_def confidence_try_def last_entry_Some stored_def Let_def
      state_confidence_Fin stability_confidence_Fin py_max_Fin py_min_Fin)

text \<open>
  Claim C8, as amended. For an estimator built with a positive observation noise variance,
  \<open>0 < delta < 1\<close> and an initial state covariance that is not negative, initialized with
  success on positive prices and updated any number of times, the confidence is the average
  of \<open>state_confidence = max(0, 1 - trace / 0.1)\<close> and
  \<open>stability_confidence = max(0, 1 - variance / 0.01)\<close>, where the trace is that of the
  current covariance and the variance that of the last twenty hedge ratios; both components
  and the confidence lie between \<open>0\<close> and \<open>1\<close>.
\<close>

theorem confidence_is_average:
  assumes "0 < r" "0 < dl" "dl < 1" "0 \<le> c"
    and built: "PairsKalmanFilter (Fin r) (Fin dl) (Fin c) = Inr s0"
    and pos: "list_all positive price_a" "list_all positive price_b"
    and init: "initialize s0 price_a price_b = (True, s)"
  shows "\<exists>covs hr tr var sc st.
           state_covariances (updates s ticks) = Some covs
           \<and> hedge_ratios (updates s ticks) = Some hr
           \<and> np_trace (last covs) = Fin tr \<and> series_var (tail 20 hr) = Fin var
           \<and> sc = max 0 (1 - tr / (1 / 10)) \<and> st = max 0 (1 - var / (1 / 100))
           \<and> state_confidence (np_trace (last covs)) = Fin sc
           \<and> stability_confidence (series_var (tail 20 hr)) = Fin st
           \<and> 0 \<le> sc \<and> sc \<le> 1 \<and> 0 \<le> st \<and> st \<le> 1
           \<and> get_confidence (updates s ticks) = Fin ((sc + st) / 2)
           \<and> 0 \<le> (sc + st) / 2 \<and> (sc + st) / 2 \<le> 1"
proof -
  note cfg = constructed_config [OF built assms(2,3)]
  have n: "50 \<le> length price_a" by (rule initialize_True(2) [OF init])
  from initialize_psd [OF cfg(1-3) assms(1) cfg(4) assms(4) pos(2) init] obtain covs where
    covs: "state_covariances s = Some covs" "length covs = length price_a"
    "list_all symmetric_psd covs"
    by blast
  from n covs(2) have ne: "covs \<noteq> []" by auto
  with covs(3) have "symmetric_psd (last covs)" by (simp add: list_all_iff)
  then obtain a b d where last: "last covs = (Fin a, Fin b, Fin b, Fin d)" and "0 \<le> a" "0 \<le> d"
    by (auto simp: symmetric_psd_iff)
  then have tr: "np_trace (last covs) = Fin (a + d)" "0 \<le> a + d" by simp_all
  have fin: "is_finite (observation_covariance s0)" "is_finite (transition_covariance s0)"
    "is_finite (initial_state_covariance s0)"
    by (simp_all add: cfg)
  from initialize_finite_hedge_ratios [OF fin pos init] obtain hr where
    hr: "hedge_ratios s = Some hr" "length hr = length price_a" "list_all is_finite hr"
    by blast
  have "list_all is_finite (tail 20 hr)"
    using hr(3) by (auto simp: tail_def list_all_iff dest: in_set_dropD)
  then obtain rs where rs: "tail 20 hr = map Fin rs"
    using finite_list by blast
  have "length (tail 20 hr) = 20" using n hr(2) by (simp add: tail_length)
  with rs have "1 < length rs" by (metis length_map one_less_numeral_iff semiring_norm(76))
  from series_var_Fin [OF this] rs obtain var where
    var: "series_var (tail 20 hr) = Fin var" "0 \<le> var"
    by auto
  define sc where "sc = max 0 (1 - (a + d) / (1 / 10))"
  define st where "st = max 0 (1 - var / (1 / 100))"
  have bounds: "0 \<le> sc" "sc \<le> 1" "0 \<le> st" "st \<le> 1"
    using tr(2) var(2) by (simp_all add: sc_def st_def)
  have "get_confidence s = Fin (min 1 (max 0 ((sc + st) / 2)))"
    unfolding sc_def st_def
    by (rule get_confidence_value [OF initialize_True(3) [OF init] covs(1) ne hr(1) tr(1) var(1)])
  with bounds have "get_confidence s = Fin ((sc + st) / 2)"
    by (simp add: min_def max_def)
  with covs(1) hr(1) tr(1) var(1) bounds show ?thesis
    unfolding updates_same
    by (intro exI [of _ covs] exI [of _ hr] exI [of _ "a + d"] exI [of _ var] exI [of _ sc]
        exI [of _ st])
      (simp add: state_confidence_Fin stability_confidence_Fin sc_def st_def)
qed


lemma rising_a_positive: "list_all positive rising_a"
  by (simp add: rising_a_def list_all_iff)

theorem confidence_is_average_witness:
  "PairsKalmanFilter (Fin (1 / 1000)) (Fin (1 / 10000)) (Fin 1) = Inr default_filter \<and>
   list_all positive rising_a \<and> list_all positive rising_b \<and>
   fst (initialize default_filter rising_a rising_b) = True \<and>
   (\<exists>covs hr tr var sc st.
      state_covariances (updates (snd (initialize default_filter rising_a rising_b))
        [(Fin (201 / 2), Fin 52)]) = Some covs
      \<and> hedge_ratios (updates (snd (initialize default_filter rising_a rising_b))
        [(Fin (201 / 2), Fin 52)]) = Some hr
      \<and> np_trace (last covs) = Fin tr \<and> series_var (tail 20 hr) = Fin var
      \<and> sc = max 0 (1 - tr / (1 / 10)) \<and> st = max 0 (1 - var / (1 / 100))
      \<and> state_confidence (np_trace (last covs)) = Fin sc
      \<and> stability_confidence (series_var (tail 20 hr)) = Fin st
      \<and> 0 \<le> sc \<and> sc \<le> 1 \<and> 0 \<le> st \<and> st \<le> 1
      \<and> get_confidence (updates (snd (initialize default_filter rising_a rising_b))
            [(Fin (201 / 2), Fin 52)]) = Fin ((sc + st) / 2)
      \<and> 0 \<le> (sc + st) / 2 \<and> (sc + st) / 2 \<le> 1)"
proof -
  have init: "initialize default_filter rising_a rising_b
          = (True, snd (initialize default_filter rising_a rising_b))"
    using initialize_rising by (simp add: prod_eq_iff)
  have "(0::real) < 1 / 1000" "(0::real) < 1 / 10000" "(1::real) / 10000 < 1" "(0::real) \<le> 1"
    by simp_all
  from confidence_is_average
    [OF this default_filter_constructed rising_a_positive rising_ok(3) init,
      of "[(Fin (201 / 2), Fin 52)]"]
  show ?thesis
    using default_filter_constructed rising_a_positive rising_ok(3) initialize_rising
    by (intro conjI) assumption+
qed

lemma fsum_zeros: "fsum (replicate n (Fin 0)) = Fin 0"
  unfolding fsum_def by (induction n) simp_all

lemma series_var_zeros: "series_var (tail 20 (replicate 50 (Fin 0))) = Fin 0"
  by (simp add: tail_def series_var_def dropna_def Let_def fsum_zeros fsub_def)

text \<open>The counterexample to claim C8 as stated, for every initialized estimator: with
  \<open>initial_state_covariance = -1.0\<close> and fifty flat prices the trace of the current
  covariance is negative, \<open>state_confidence\<close> exceeds \<open>1\<close>, and so does the average of the
  two components; \<open>get_confidence\<close> returns \<open>1.0\<close>, the value of its final clamp, not the
  average.\<close>

theorem negative_prior_confidence_clamped:
  "PairsKalmanFilter (Fin (1 / 1000)) (Fin (1 / 10000)) (Fin (- 1)) = Inr negative_prior_filter \<and>
   fst (initialize negative_prior_filter flat_prices flat_prices) = True \<and>
   is_initialized (snd (initialize negative_prior_filter flat_prices flat_prices)) \<and>
   (\<exists>covs hr tr.
      state_covariances (snd (initialize negative_prior_filter flat_prices flat_prices))
        = Some covs
      \<and> hedge_ratios (snd (initialize negative_prior_filter flat_prices flat_prices)) = Some hr
      \<and> np_trace (last covs) = Fin tr
      \<and> state_confidence (np_trace (last covs)) = Fin (1 - tr / (1 / 10))
      \<and> 1 < 1 - tr / (1 / 10)
      \<and> stability_confidence (series_var (tail 20 hr)) = Fin 1
      \<and> get_confidence (snd (initialize negative_prior_filter flat_prices flat_prices)) = Fin 1
      \<and> 1 < ((1 - tr / (1 / 10)) + 1) / 2)"
proof -
  let ?s = "snd (initialize negative_prior_filter flat_prices flat_prices)"
  from initialize_flat [OF negative_prior_flat_config] obtain covs a where
    init: "initialize negative_prior_filter flat_prices flat_prices =
            (True, negative_prior_filter\<lparr>
                      kf := Some (KalmanFilter negative_prior_filter (replicate 50 (Fin 1, Fin 0))),
                      state_means := Some (replicate 50 (Fin 0, Fin 0)),
                      state_covariances := Some covs,
                      spreads := Some (replicate 50 (Fin 0)),
                      z_scores := Some (replicate 50 (Fin 0)),
                      hedge_ratios := Some (replicate 50 (Fin 0)),
                      is_initialized := True \<rparr>)"
    and len: "length covs = 50"
    and last: "last covs = (Fin a, Fin 0, Fin 0, Fin (- 1 + 49 * (1 / 9999)))"
    and a: "0 < a" "a < 1 / 1000"
    by blast
  define tr where "tr = a + (- 1 + 49 * (1 / 9999))"
  have tr: "np_trace (last covs) = Fin tr" by (simp add: last tr_def)
  have neg: "tr < 0" using a(2) by (simp add: tr_def)
  then have big: "1 < 1 - tr / (1 / 10)" by simp
  then have sc: "state_confidence (Fin tr) = Fin (1 - tr / (1 / 10))"
    by (simp add: state_confidence_Fin max_def)
  have st: "stability_confidence (series_var (tail 20 (replicate 50 (Fin 0)))) = Fin 1"
    by (simp add: series_var_zeros stability_confidence_Fin)
  have ne: "covs \<noteq> []" using len by auto
  have "get_confidence ?s
          = Fin (min 1 (max 0 ((max 0 (1 - tr / (1 / 10)) + max 0 (1 - 0 / (1 / 100))) / 2)))"
    by (rule get_confidence_value [of ?s covs "replicate 50 (Fin 0)"])
      (simp_all add: init ne tr series_var_zeros)
  with big have conf: "get_confidence ?s = Fin 1"
    by (simp add: min_def max_def)
  from big have avg: "1 < ((1 - tr / (1 / 10)) + 1) / 2" by simp
  have fields: "state_covariances ?s = Some covs" "hedge_ratios ?s = Some (replicate 50 (Fin 0))"
    "is_initialized ?s" "fst (initialize negative_prior_filter flat_prices flat_prices) = True"
    by (simp_all add: init)
  show ?thesis
    using negative_prior_constructed fields tr sc big st conf avg
    by (intro conjI exI [of _ covs] exI [of _ "replicate 50 (Fin 0)"] exI [of _ tr])
      (simp_all only:)
qed

section \<open>Further properties of the update\<close>

text \<open>
  For every state and all prices, \<open>update\<close> leaves the estimator as it found it: its
  \<open>try\<close> block raises before the assignments of lines 172 and 173, and what it returns
  does not depend on the prices of the tick.
\<close>

theorem update_keeps_state:
  "snd (update s price_a price_b) = s \<and>
   (\<exists>e. update_try s price_a price_b = (Inl e, s)) \<and>
   update s price_a price_b = update s price_a' price_b'"
  using update_try_raises [of s price_a price_b] by (simp add: update_eq)

text \<open>
  For every state, initialized or not, well-formed or not, \<open>get_confidence\<close> returns a
  finite number between \<open>0\<close> and \<open>1\<close>.
\<close>

theorem confidence_in_unit_interval:
  "\<exists>v. get_confidence s = Fin v \<and> 0 \<le> v \<and> v \<le> 1"
proof -
  have clamp: "\<exists>v. py_min (Fin 1) (py_max (Fin 0) x) = Fin v \<and> 0 \<le> v \<and> v \<le> 1" for x
    by (cases x) (auto simp: py_min_def py_max_def)
  show ?thesis
  proof (cases "is_initialized s")
    case False
    then show ?thesis by (simp add: get_confidence_def)
  next
    case True
    show ?thesis
    proof (cases "confidence_try s")
      case (Inl e)
      with True have "get_confidence s = Fin (1 / 2)" by (simp add: get_confidence_def)
      then show ?thesis by (intro exI [of _ "1 / 2"]) simp
    next
      case (Inr c)
      then obtain x where "c = py_min (Fin 1) (py_max (Fin 0) x)"
        by (auto simp: confidence_try_def ebind_def Let_def split: sum.splits)
      with clamp [of x] True Inr show ?thesis by (simp add: get_confidence_def)
    qed
  qed
qed

text \<open>
  When the estimator is not initialized, the strategy's \<open>update\<close> catches the estimator's
  \<open>RuntimeError\<close> and returns \<open>NO_SIGNAL\<close> with the hedge ratio, z-score, spread and
  confidence all \<open>0.0\<close>; the position, the half-life and the rest of the strategy are
  unchanged.
\<close>

theorem strategy_update_uninitialized:
  assumes "\<not> is_initialized (kalman_filter st)"
  shows "strategy_update ols st price_a price_b =
           (\<lparr> r_signal = NO_SIGNAL, r_hedge_ratio = Fin 0, r_z_score = Fin 0, r_spread = Fin 0,
              r_confidence = Fin 0, r_current_position = current_position st,
              r_half_life = current_half_life st \<rparr>, st)"
  using assms by (simp add: strategy_update_def update_eq)

theorem strategy_update_uninitialized_witness:
  "\<not> is_initialized (kalman_filter default_strategy) \<and>
   strategy_update least_squares default_strategy (Fin 100) (Fin 50) =
     (\<lparr> r_signal = NO_SIGNAL, r_hedge_ratio = Fin 0, r_z_score = Fin 0, r_spread = Fin 0,
        r_confidence = Fin 0, r_current_position = 0, r_half_life = None \<rparr>, default_strategy)"
proof -
  have "\<not> is_initialized (kalman_filter default_strategy)"
    by (simp add: default_strategy_def default_filter_def)
  from strategy_update_uninitialized [OF this, of least_squares "Fin 100" "Fin 50"] this
  show ?thesis by (simp add: default_strategy_def)
qed

theorem update_keeps_state_witness:
  "snd (update default_filter (Fin 100) (Fin 50)) = default_filter \<and>
   (\<exists>e. update_try default_filter (Fin 100) (Fin 50) = (Inl e, default_filter)) \<and>
   update default_filter (Fin 100) (Fin 50) = update default_filter (Fin 105) (Fin 52)"
  by (rule update_keeps_state)

theorem confidence_in_unit_interval_witness:
  "\<exists>v. get_confidence (reset default_filter) = Fin v \<and> 0 \<le> v \<and> v \<le> 1"
  by (rule confidence_in_unit_interval)

section \<open>The half-life\<close>

text \<open>
  The labels of \<open>model.params\<close> are \<open>const\<close> and \<open>0\<close>, or \<open>0\<close> alone: one of them is
  an integer, so \<open>model.params[1]\<close> is looked up as a label, and no column has the label
  \<open>1\<close>. Whatever the fit returns, line 324 raises.
\<close>

lemma params_lookup_raises:
  "\<exists>e. series_getitem (zip (map fst (add_constant xs)) coefficients) 1 = Inl e"
proof (cases "is_constant_column xs")
  case True
  then show ?thesis
    by (cases coefficients) (simp_all add: add_constant_def series_getitem_def)
next
  case False
  show ?thesis
  proof (cases coefficients)
    case Nil
    then show ?thesis by (simp add: add_constant_def series_getitem_def False)
  next
    case (Cons c rest)
    then show ?thesis
      by (cases rest) (simp_all add: add_constant_def series_getitem_def False)
  qed
qed

lemma fit_then_lookup_raises:
  "\<exists>e. ebind (ols ys (map snd (add_constant xs))) (\<lambda>coefficients.
          let params = zip (map fst (add_constant xs)) coefficients
          in ebind (series_getitem params 1) g) = Inl e"
proof (cases "ols ys (map snd (add_constant xs))")
  case (Inl e)
  then show ?thesis by simp
next
  case (Inr coefficients)
  from params_lookup_raises [of xs coefficients] obtain e where
    "series_getitem (zip (map fst (add_constant xs)) coefficients) 1 = Inl e" by blast
  with Inr show ?thesis by simp
qed

lemma half_life_try_not_finite:
  assumes "half_life_try ols k = Inr h"
  shows "h = PInf"
proof (cases "spreads k")
  case None
  with assms show ?thesis by (simp add: half_life_try_def stored_def)
next
  case (Some series)
  let ?sp = "dropna series"
  let ?common = "aligned_pairs ?sp"
  show ?thesis
  proof (cases "length ?sp < 50 \<or> length ?common < 30")
    case True
    with assms Some show ?thesis
      by (auto simp: half_life_try_def stored_def Let_def split: if_splits)
  next
    case False
    from fit_then_lookup_raises [of ols "map snd ?common" "map fst ?common"] obtain e where
      "half_life_try ols k = Inl e"
      using Some False by (auto simp: half_life_try_def stored_def Let_def)
    with assms show ?thesis by simp
  qed
qed

lemma calculate_half_life_infinite: "calculate_half_life ols k = PInf"
  using half_life_try_not_finite [of ols k]
  by (cases "half_life_try ols k") (simp_all add: calculate_half_life_def)


lemma alternating_51:
  "length (dropna (alternating 51)) = 51"
  "length (aligned_pairs (dropna (alternating 51))) = 50"
  "least_squares (map snd (aligned_pairs (dropna (alternating 51))))
     (map snd (add_constant (map fst (aligned_pairs (dropna (alternating 51))))))
     = Inr [Fin 0, Fin (- 2)]"
  "series_getitem
     (zip (map fst (add_constant (map fst (aligned_pairs (dropna (alternating 51))))))
        [Fin 0, Fin (- 2)]) 1 = Inl KeyError"
  by code_simp+

text \<open>
  Claim C3. The claim says that with thirty or more aligned pairs the half-life is
  \<open>-ln 2 / beta\<close> when the fitted slope \<open>beta\<close> is negative. The code does not return it:
  on the fifty-one spreads \<open>1, -1, ..., 1\<close>, which give fifty aligned pairs and the fitted
  slope \<open>-2\<close>, the lookup \<open>model.params[1]\<close> raises \<open>KeyError\<close> and the half-life is
  infinite, where the claim gives \<open>ln 2 / 2\<close>.
\<close>

theorem half_life_infinite_for_reverting_spreads:
  "length (dropna (alternating 51)) = 51 \<and>
   length (aligned_pairs (dropna (alternating 51))) = 50 \<and>
   least_squares (map snd (aligned_pairs (dropna (alternating 51))))
     (map snd (add_constant (map fst (aligned_pairs (dropna (alternating 51))))))
     = Inr [Fin 0, Fin (- 2)] \<and>
   series_getitem
     (zip (map fst (add_constant (map fst (aligned_pairs (dropna (alternating 51))))))
        [Fin 0, Fin (- 2)]) 1 = Inl KeyError \<and>
   calculate_half_life least_squares (default_filter\<lparr>spreads := Some (alternating 51)\<rparr>) = PInf \<and>
   fdiv (fneg (flog (Fin 2))) (Fin (- 2)) = Fin (ln 2 / 2) \<and>
   PInf \<noteq> Fin (ln 2 / 2)"
  using alternating_51 by (simp add: calculate_half_life_infinite)

text \<open>
  For every spread history and whatever the regression returns, \<open>_calculate_half_life\<close>
  returns the infinite half-life: each path of the method ends in one of its two guards or
  in an exception.
\<close>

theorem half_life_always_infinite: "calculate_half_life ols k = PInf"
  by (rule calculate_half_life_infinite)

theorem half_life_always_infinite_witness:
  "calculate_half_life least_squares (default_filter\<lparr>spreads := Some (alternating 51)\<rparr>) = PInf"
  by (rule half_life_always_infinite)

section \<open>The fallback of the online update\<close>

text \<open>
  A missing first observation makes every filtered state mean \<open>NaN\<close>: the batch filter
  starts from the prior mean, the first correction adds a \<open>NaN\<close> innovation to it, and
  every later step predicts and corrects from a \<open>NaN\<close> mean.
\<close>

lemma nan_absorbs_left [simp]: "fadd NaN x = NaN" "fmul NaN x = NaN" "fdiv NaN x = NaN"
  by (cases x; simp)+

lemma filter_predict_nan:
  "fst (filter_predict eye2 Q (NaN, NaN) P) = (NaN, NaN)"
  by (simp add: filter_predict_def eye2_def dot2_def)

lemma filter_correct_nan_mean:
  "filter_correct H R (NaN, NaN) P y = Inr (m', P') \<Longrightarrow> m' = (NaN, NaN)"
  by (auto simp: filter_correct_def Let_def ebind_def vec2_add_def split: sum.splits)

lemma filter_loop_nan:
  assumes "transition_matrices k = eye2"
  shows "filter_loop k (NaN, NaN) P xs = Inr res \<Longrightarrow> list_all (\<lambda>e. fst e = (NaN, NaN)) res"
proof (induction xs arbitrary: P res)
  case Nil
  then show ?case by simp
next
  case (Cons x xs)
  obtain H y where x: "x = (H, y)" by (cases x)
  obtain pm pP where pred: "filter_predict eye2 (transition_cov k) (NaN, NaN) P = (pm, pP)"
    by (cases "filter_predict eye2 (transition_cov k) (NaN, NaN) P")
  with filter_predict_nan [of "transition_cov k" P] have pm: "pm = (NaN, NaN)" by simp
  from Cons.prems obtain m' P' r where
    corr: "filter_correct H (observation_cov k) (NaN, NaN) pP y = Inr (m', P')"
    and loop: "filter_loop k m' P' xs = Inr r" and res: "res = (m', P') # r"
    by (auto simp: x assms pred pm ebind_def split: sum.splits)
  from filter_correct_nan_mean [OF corr] have m': "m' = (NaN, NaN)" .
  with Cons.IH [of P' r] loop res show ?case by simp
qed

lemma kf_filter_nan_means:
  assumes "kf_filter k (NaN # ys) = Inr (ms, Ps)" "transition_matrices k = eye2"
  shows "list_all (\<lambda>m. m = (NaN, NaN)) ms"
proof (cases "observation_matrices k")
  case Nil
  with assms(1) show ?thesis by (simp add: kf_filter_def)
next
  case (Cons H Hs)
  with assms(1) obtain m P r where
    corr: "filter_correct H (observation_cov k) (initial_state_mean k) (initial_state_cov k) NaN
             = Inr (m, P)"
    and loop: "filter_loop k m P (zip Hs ys) = Inr r" and ms: "ms = m # map fst r"
    by (auto simp: kf_filter_def ebind_def split: sum.splits prod.splits)
  from filter_correct_nan_observation [OF corr] have m: "m = (NaN, NaN)" .
  with filter_loop_nan [OF assms(2), of P "zip Hs ys" r] loop
  have "list_all (\<lambda>e. fst e = (NaN, NaN)) r" by simp
  with m ms show ?thesis by (simp add: list_all_iff)
qed

text \<open>
  Claim C7, as amended. When the \<open>try\<close> block of \<open>update\<close> raises on an estimator that a
  successful \<open>initialize\<close> (and any earlier updates) has produced, no exception leaves the
  method and the stored state is untouched: the call returns the last stored hedge ratio,
  z-score and spread, whether or not these are finite numbers, and the strategy's \<open>update\<close>
  on top of it passes these three values on in its result. The strategy's own handler
  (lines 378 to 388) runs only when the estimator's \<open>update\<close> itself raises, and it returns
  no stored value: the signal is \<open>NO_SIGNAL\<close> and the hedge ratio, z-score, spread and
  confidence are all \<open>0.0\<close>, with the strategy unchanged.
\<close>

theorem update_falls_back:
  assumes init: "initialize s0 pa pb = (True, s1)" and s: "s = updates s1 ticks"
    and raised: "fst (update_try s price_a price_b) = Inl e"
  shows "(\<exists>hr zs sp. hedge_ratios s = Some hr \<and> z_scores s = Some zs \<and> spreads s = Some sp
           \<and> hr \<noteq> [] \<and> zs \<noteq> [] \<and> sp \<noteq> []
           \<and> update s price_a price_b = (Inr (last hr, last zs, last sp), s)
           \<and> (\<forall>ols st. kalman_filter st = s \<longrightarrow>
                 r_hedge_ratio (fst (strategy_update ols st price_a price_b)) = last hr
               \<and> r_z_score (fst (strategy_update ols st price_a price_b)) = last zs
               \<and> r_spread (fst (strategy_update ols st price_a price_b)) = last sp))
         \<and> (\<forall>ols st e'. fst (update (kalman_filter st) price_a price_b) = Inl e' \<longrightarrow>
               strategy_update ols st price_a price_b =
                 (\<lparr> r_signal = NO_SIGNAL, r_hedge_ratio = Fin 0, r_z_score = Fin 0,
                    r_spread = Fin 0, r_confidence = Fin 0,
                    r_current_position = current_position st,
                    r_half_life = current_half_life st \<rparr>, st))"
proof -
  from initialize_True [OF init] s have "is_initialized s" "histories s (length pa)" "0 < length pa"
    by (auto simp: updates_same)
  from last_known_histories [OF this(2,3)] obtain hr zs sp where
    f: "hedge_ratios s = Some hr" "z_scores s = Some zs" "spreads s = Some sp"
    and l: "length hr = length pa" "length zs = length pa" "length sp = length pa"
    and lk: "last_known s = Inr (last hr, last zs, last sp)"
    by blast
  have up: "update s price_a price_b = (Inr (last hr, last zs, last sp), s)"
    using \<open>is_initialized s\<close> lk update_try_raises [of s price_a price_b] raised
    by (auto simp: update_def)
  have "hr \<noteq> []" "zs \<noteq> []" "sp \<noteq> []"
    using l \<open>0 < length pa\<close> by auto
  with f up have first: "\<exists>hr zs sp. hedge_ratios s = Some hr \<and> z_scores s = Some zs
           \<and> spreads s = Some sp \<and> hr \<noteq> [] \<and> zs \<noteq> [] \<and> sp \<noteq> []
           \<and> update s price_a price_b = (Inr (last hr, last zs, last sp), s)
           \<and> (\<forall>ols st. kalman_filter st = s \<longrightarrow>
                 r_hedge_ratio (fst (strategy_update ols st price_a price_b)) = last hr
               \<and> r_z_score (fst (strategy_update ols st price_a price_b)) = last zs
               \<and> r_spread (fst (strategy_update ols st price_a price_b)) = last sp)"
    by (auto simp: strategy_update_def Let_def)
  have second: "\<forall>ols st e'. fst (update (kalman_filter st) price_a price_b) = Inl e' \<longrightarrow>
               strategy_update ols st price_a price_b =
                 (\<lparr> r_signal = NO_SIGNAL, r_hedge_ratio = Fin 0, r_z_score = Fin 0,
                    r_spread = Fin 0, r_confidence = Fin 0,
                    r_current_position = current_position st,
                    r_half_life = current_half_life st \<rparr>, st)"
    by (auto simp: strategy_update_def update_eq)
  from first second show ?thesis by (rule conjI)
qed

theorem update_falls_back_witness:
  "fst (initialize default_filter rising_a rising_b) = True \<and>
   (\<exists>e. fst (update_try (snd (initialize default_filter rising_a rising_b))
             (Fin (201 / 2)) (Fin 52)) = Inl e) \<and>
   (\<exists>hr zs sp.
      hedge_ratios (snd (initialize default_filter rising_a rising_b)) = Some hr
      \<and> z_scores (snd (initialize default_filter rising_a rising_b)) = Some zs
      \<and> spreads (snd (initialize default_filter rising_a rising_b)) = Some sp
      \<and> hr \<noteq> [] \<and> zs \<noteq> [] \<and> sp \<noteq> []
      \<and> update (snd (initialize default_filter rising_a rising_b)) (Fin (201 / 2)) (Fin 52)
          = (Inr (last hr, last zs, last sp), snd (initialize default_filter rising_a rising_b))
      \<and> r_hedge_ratio (fst (strategy_update least_squares
            (default_strategy\<lparr>kalman_filter := snd (initialize default_filter rising_a rising_b)\<rparr>)
            (Fin (201 / 2)) (Fin 52))) = last hr) \<and>
   fst (update (kalman_filter default_strategy) (Fin (201 / 2)) (Fin 52)) = Inl RuntimeError \<and>
   strategy_update least_squares default_strategy (Fin (201 / 2)) (Fin 52) =
     (\<lparr> r_signal = NO_SIGNAL, r_hedge_ratio = Fin 0, r_z_score = Fin 0, r_spread = Fin 0,
        r_confidence = Fin 0, r_current_position = current_position default_strategy,
        r_half_life = current_half_life default_strategy \<rparr>, default_strategy)"
proof -
  let ?s = "snd (initialize default_filter rising_a rising_b)"
  have init: "initialize default_filter rising_a rising_b = (True, ?s)"
    using initialize_rising by (simp add: prod_eq_iff)
  obtain e where raised: "fst (update_try ?s (Fin (201 / 2)) (Fin 52)) = Inl e"
    using update_try_raises [of ?s "Fin (201 / 2)" "Fin 52"] by auto
  have s: "?s = updates ?s []" by simp
  have uninit: "fst (update (kalman_filter default_strategy) (Fin (201 / 2)) (Fin 52))
                  = Inl RuntimeError"
    by (simp add: update_eq default_strategy_def default_filter_def)
  note fallback = update_falls_back [OF init s raised]
  from fallback obtain hr zs sp where
    "hedge_ratios ?s = Some hr" "z_scores ?s = Some zs" "spreads ?s = Some sp"
    "hr \<noteq> []" "zs \<noteq> []" "sp \<noteq> []"
    "update ?s (Fin (201 / 2)) (Fin 52) = (Inr (last hr, last zs, last sp), ?s)"
    "\<And>ols st. kalman_filter st = ?s \<Longrightarrow>
        r_hedge_ratio (fst (strategy_update ols st (Fin (201 / 2)) (Fin 52))) = last hr"
    by blast
  moreover from fallback uninit have
    "strategy_update least_squares default_strategy (Fin (201 / 2)) (Fin 52) =
     (\<lparr> r_signal = NO_SIGNAL, r_hedge_ratio = Fin 0, r_z_score = Fin 0, r_spread = Fin 0,
        r_confidence = Fin 0, r_current_position = current_position default_strategy,
        r_half_life = current_half_life default_strategy \<rparr>, default_strategy)"
    by blast
  ultimately show ?thesis
    using initialize_rising raised uninit by auto
qed

text \<open>The counterexample to claim C7 as stated, which promises the last known valid
  triple and no corrupted values: on fifty points whose first \<open>price_a\<close> is missing,
  \<open>initialize\<close> succeeds and stores \<open>NaN\<close> hedge ratios; the next \<open>update\<close> raises in its
  \<open>try\<close> block and falls back to a \<open>NaN\<close> hedge ratio, which the strategy's \<open>update\<close>
  returns to its caller.\<close>

theorem fallback_returns_nan:
  "fst (initialize default_filter gap_prices flat_prices) = True \<and>
   is_initialized (snd (initialize default_filter gap_prices flat_prices)) \<and>
   (\<exists>e. fst (update_try (snd (initialize default_filter gap_prices flat_prices))
             (Fin 2) (Fin 1)) = Inl e) \<and>
   (\<exists>z sp. update (snd (initialize default_filter gap_prices flat_prices)) (Fin 2) (Fin 1)
             = (Inr (NaN, z, sp), snd (initialize default_filter gap_prices flat_prices))) \<and>
   r_hedge_ratio (fst (strategy_update least_squares
       (default_strategy\<lparr>kalman_filter := snd (initialize default_filter gap_prices flat_prices)\<rparr>)
       (Fin 2) (Fin 1))) = NaN \<and>
   \<not> is_finite NaN"
proof -
  let ?s = "snd (initialize default_filter gap_prices flat_prices)"
  let ?k = "KalmanFilter default_filter (map (\<lambda>b. (Fin 1, b)) (map flog flat_prices))"
  have ok: "fst (initialize default_filter gap_prices flat_prices) = True"
    by (rule initialize_succeeds)
      (simp_all add: default_filter_finite flat_ok gap_prices_def)
  then have init: "initialize default_filter gap_prices flat_prices = (True, ?s)"
    by (simp add: prod_eq_iff)
  have initd: "is_initialized ?s" by (rule initialize_True(3) [OF init])
  have len: "length gap_prices = 50" by (simp add: gap_prices_def)
  from init obtain ms Ps where filt: "kf_filter ?k (map flog gap_prices) = Inr (ms, Ps)"
    and hr: "hedge_ratios ?s = Some (map snd ms)"
    by (auto simp: initialize_def Let_def calculate_spreads_and_z_scores_def stored_def
        split: if_splits sum.splits prod.splits)
  from filt have "kf_filter ?k (NaN # map flog (replicate 49 (Fin 1))) = Inr (ms, Ps)"
    by (simp add: gap_prices_def)
  moreover have "transition_matrices ?k = eye2" by (simp add: KalmanFilter_def)
  ultimately have nan: "list_all (\<lambda>m. m = (NaN, NaN)) ms"
    by (rule kf_filter_nan_means)
  from initialize_True(4) [OF init] hr have "length (map snd ms) = 50"
    unfolding histories_def len by (metis length_map option.inject)
  then have ne: "ms \<noteq> []" by auto
  then have "last ms \<in> set ms" by (rule last_in_set)
  with nan have "last ms = (NaN, NaN)" by (simp add: list_all_iff)
  with ne have last: "last (map snd ms) = NaN" by (simp add: last_map)
  from last_known_histories [OF initialize_True(4) [OF init]] len obtain hr' zs sp where
    "hedge_ratios ?s = Some hr'" and lk: "last_known ?s = Inr (last hr', last zs, last sp)"
    by auto
  with hr last have lk': "last_known ?s = Inr (NaN, last zs, last sp)" by simp
  have up: "update ?s (Fin 2) (Fin 1) = (Inr (NaN, last zs, last sp), ?s)"
    using initd lk' by (simp add: update_eq)
  obtain e where raised: "fst (update_try ?s (Fin 2) (Fin 1)) = Inl e"
    using update_try_raises [of ?s "Fin 2" "Fin 1"] by auto
  have strat: "r_hedge_ratio (fst (strategy_update least_squares
       (default_strategy\<lparr>kalman_filter := ?s\<rparr>) (Fin 2) (Fin 1))) = NaN"
    by (simp add: strategy_update_def up Let_def)
  from ok initd raised up strat show ?thesis by auto
qed

end
